theory Spec2Isabelle
  imports Main
begin

section \<open>Python values\<close>

text \<open>
  The client handles whatever \<open>response.json()\<close> returns: any JSON value, not only an
  object. Python exceptions that the code can raise and that leave a function are values
  of \<open>pyerror\<close>; a result \<open>Inl e\<close> is the exception \<open>e\<close> propagating to the caller.
\<close>

datatype pyerror = AttributeError | ValueError | OSError | ImportError

datatype pyval =
    PNone
  | PBool bool
  | PInt int
  | PFloat int int
  | PStr string
  | PList "pyval list"
  | PTuple "pyval list"
  | PDict "(string \<times> pyval) list"

text \<open>
  Truthiness, as \<open>if x:\<close>, \<open>not x\<close> and \<open>x and y\<close> test it. \<open>PFloat m e\<close> is the
  float \<open>m * 2^e\<close>; it is false exactly when it is zero.
\<close>

fun truthy :: "pyval \<Rightarrow> bool" where
  "truthy PNone = False"
| "truthy (PBool b) = b"
| "truthy (PInt n) = (n \<noteq> 0)"
| "truthy (PFloat m e) = (m \<noteq> 0)"
| "truthy (PStr s) = (s \<noteq> [])"
| "truthy (PList xs) = (xs \<noteq> [])"
| "truthy (PTuple xs) = (xs \<noteq> [])"
| "truthy (PDict kvs) = (kvs \<noteq> [])"

text \<open>
  \<open>x.get(k, d)\<close>: only a dict has the method; on every other value the attribute lookup
  raises AttributeError.
\<close>

fun py_get :: "pyval \<Rightarrow> string \<Rightarrow> pyval \<Rightarrow> pyerror + pyval" where
  "py_get (PDict kvs) k d = Inr (case map_of kvs k of None \<Rightarrow> d | Some v \<Rightarrow> v)"
| "py_get PNone k d = Inl AttributeError"
| "py_get (PBool b) k d = Inl AttributeError"
| "py_get (PInt n) k d = Inl AttributeError"
| "py_get (PFloat m e) k d = Inl AttributeError"
| "py_get (PStr s) k d = Inl AttributeError"
| "py_get (PList xs) k d = Inl AttributeError"
| "py_get (PTuple xs) k d = Inl AttributeError"

text \<open>The value of \<open>d.get(k)\<close> on a dict \<open>d\<close>.\<close>

definition dict_get :: "(string \<times> pyval) list \<Rightarrow> string \<Rightarrow> pyval" where
  "dict_get d k = (case map_of d k of None \<Rightarrow> PNone | Some v \<Rightarrow> v)"

text \<open>\<open>str.upper()\<close> on ASCII letters.\<close>

definition upper :: "string \<Rightarrow> string" where
  "upper s = map (\<lambda>c. if 97 \<le> (of_char c :: nat) \<and> (of_char c :: nat) \<le> 122
                        then char_of ((of_char c :: nat) - 32) else c) s"

section \<open>Paths, formatted strings, events\<close>

text \<open>A path is the list of its components; \<open>Path.name\<close> is the last one.\<close>

type_synonym path = "string list"
type_synonym bytes = "char list"

definition path_name :: "path \<Rightarrow> string" where
  "path_name p = (if p = [] then [] else last p)"

text \<open>
  An f-string is kept as its pieces: literal text, an interpolated value, an interpolated
  path, or the text of a caught exception.
\<close>

datatype piece = Lit string | Val pyval | Pth path | Exc

type_synonym fstr = "piece list"

datatype level = INFO | WARNING | ERROR

type_synonym upload = "(string \<times> string \<times> path \<times> string) list"
type_synonym form = "(string \<times> pyval) list"

datatype request =
  Request (req_method: string) (req_url: fstr) (req_headers: form)
          (req_files: upload) (req_data: form) (req_params: form) (req_timeout: "int \<times> int")

datatype event =
    Log level fstr
  | Http request
  | Sleep int
  | WriteFile path bytes

section \<open>The world outside the process\<close>

text \<open>
  One HTTP call of the \<open>requests\<close> library either raises (a timeout, a connection error,
  another \<open>RequestException\<close>, or an exception outside that hierarchy, such as the
  ValueError of a URL that cannot be parsed) or returns a response. A connect timeout is
  both a \<open>ConnectionError\<close> and a \<open>Timeout\<close>; the handlers of the code test
  \<open>Timeout\<close> first, so it counts as \<open>Timeout\<close> here. \<open>json_body\<close> is what
  \<open>response.json()\<close> returns, \<open>None\<close> when it raises \<open>ValueError\<close>.
\<close>

record response =
  status_code :: int
  json_body :: "pyval option"
  text_of :: string
  content :: bytes

datatype http_outcome =
  Timeout | ConnectionError | RequestException | Raised pyerror | Response response

text \<open>
  The environment answers the \<open>n\<close>-th HTTP call of the run with \<open>net n\<close>, says which
  paths exist, and on which paths the operating system refuses \<open>open\<close> or \<open>mkdir\<close>.
\<close>

record env =
  net :: "nat \<Rightarrow> http_outcome"
  path_exists :: "path \<Rightarrow> bool"
  os_error :: "path \<Rightarrow> bool"

record state =
  calls :: nat
  trace :: "event list"
  written :: "path \<Rightarrow> bytes option"

definition emit :: "event \<Rightarrow> state \<Rightarrow> state" where
  "emit e st = st\<lparr>trace := trace st @ [e]\<rparr>"

definition log :: "level \<Rightarrow> fstr \<Rightarrow> state \<Rightarrow> state" where
  "log l m st = emit (Log l m) st"

definition http_call :: "env \<Rightarrow> request \<Rightarrow> state \<Rightarrow> http_outcome \<times> state" where
  "http_call E rq st =
     (net E (calls st), st\<lparr>calls := Suc (calls st), trace := trace st @ [Http rq]\<rparr>)"

section \<open>app.py: the request helper\<close>

definition RAPIDAPI_HOST :: string where
  "RAPIDAPI_HOST = ''translateanypdf.p.rapidapi.com''"

definition BASE_URL :: string where
  "BASE_URL = ''https://'' @ RAPIDAPI_HOST"

text \<open>
  The argument of the error logs of lines 51, 54 and 57:
  \<open>response_json.get('message') if response_json else response.text[:100]\<close>.
\<close>

definition error_message_arg :: "pyval \<Rightarrow> string \<Rightarrow> pyerror + piece" where
  "error_message_arg response_json txt =
     (if truthy response_json
      then (case py_get response_json ''message'' PNone of
              Inl e \<Rightarrow> Inl e
            | Inr v \<Rightarrow> Inr (Val v))
      else Inr (Lit (take 100 txt)))"

text \<open>
  Lines 37 to 61 with the handler of line 71: what the helper does with a response.
  \<open>raise_for_status\<close> raises for 400 to 599; the 4xx codes have returned before it.
\<close>

definition handle_response :: "response \<Rightarrow> state \<Rightarrow> (pyerror + pyval \<times> int option) \<times> state" where
  "handle_response r st =
     (let st1 = log INFO [Lit ''Response Status Code: '', Val (PInt (status_code r))] st;
          response_json = (case json_body r of Some j \<Rightarrow> j | None \<Rightarrow> PNone);
          st2 = (case json_body r of
                   Some j \<Rightarrow> log INFO [Lit ''Response JSON: '', Val j] st1
                 | None \<Rightarrow> log WARNING [Lit ''Response was not JSON. Response Text: '',
                                         Lit (take 200 (text_of r)), Lit ''...''] st1);
          code = status_code r
      in if code = 401 then
           (Inr (PNone, Some code),
            log ERROR [Lit ''ERROR: Unauthorized (401). Your RapidAPI Key is invalid or missing.''] st2)
         else if code = 403 then
           (case error_message_arg response_json (text_of r) of
              Inl e \<Rightarrow> (Inl e, st2)
            | Inr m \<Rightarrow>
                (Inr (response_json, Some code),
                 log ERROR [Lit ''ERROR: Forbidden (403). You might not have access to this tier/endpoint, or your quota is exceeded. Message: '', m] st2))
         else if code = 429 then
           (case error_message_arg response_json (text_of r) of
              Inl e \<Rightarrow> (Inl e, st2)
            | Inr m \<Rightarrow>
                (Inr (response_json, Some code),
                 log ERROR [Lit ''ERROR: Too Many Requests (429). You have exceeded your rate limit. Message: '', m] st2))
         else if 400 \<le> code \<and> code < 500 \<and> code \<notin> {401, 403, 429} then
           (case error_message_arg response_json (text_of r) of
              Inl e \<Rightarrow> (Inl e, st2)
            | Inr m \<Rightarrow>
                (Inr (response_json, Some code),
                 log ERROR [Lit ''ERROR: Client Error ('', Val (PInt code), Lit ''). Message: '', m] st2))
         else if 400 \<le> code \<and> code < 600 then
           (Inr (PNone, None), log ERROR [Lit ''HTTP Server Error occurred: '', Exc] st2)
         else (Inr (response_json, Some code), st2))"

text \<open>Lines 28 to 32: the logs before the call.\<close>

definition log_request :: "string \<Rightarrow> fstr \<Rightarrow> upload \<Rightarrow> form \<Rightarrow> form \<Rightarrow> int \<Rightarrow> int \<Rightarrow> state \<Rightarrow> state" where
  "log_request method url files data params attempt max_attempts st =
     (let st1 = log INFO ([Lit ''Sending '', Lit (upper method), Lit '' request to ''] @ url @
                          [Lit '' (Attempt '', Val (PInt attempt), Lit ''/'',
                           Val (PInt max_attempts), Lit '')'']) st;
          st2 = (if data \<noteq> [] then log INFO [Lit ''Form data: '', Val (PDict data)] st1 else st1);
          st3 = (if files \<noteq> []
                 then log INFO [Lit ''Files: '',
                                Val (PList (map (\<lambda>(k, n, f, t). PTuple [PStr k, PStr n]) files))] st2
                 else st2)
      in if params \<noteq> [] then log INFO [Lit ''URL Parameters: '', Val (PDict params)] st3 else st3)"

definition api_request :: "pyval \<Rightarrow> string \<Rightarrow> fstr \<Rightarrow> upload \<Rightarrow> form \<Rightarrow> form \<Rightarrow> request" where
  "api_request api_key method endpoint files data params =
     Request method (Lit BASE_URL # endpoint)
       [(''X-RapidAPI-Key'', api_key), (''X-RapidAPI-Host'', PStr RAPIDAPI_HOST)]
       files data params (10, 60)"

text \<open>
  \<open>make_api_request\<close>; \<open>time.sleep\<close> raises ValueError on a negative length, inside the
  handler, so the exception leaves the helper. So does an exception of \<open>requests.request\<close>
  that none of the four handlers names.
\<close>

function make_api_request ::
  "env \<Rightarrow> pyval \<Rightarrow> string \<Rightarrow> fstr \<Rightarrow> upload \<Rightarrow> form \<Rightarrow> form \<Rightarrow> int \<Rightarrow> int \<Rightarrow> state
   \<Rightarrow> (pyerror + pyval \<times> int option) \<times> state" where
  "make_api_request E api_key method endpoint files data params attempt max_attempts st =
     (case http_call E (api_request api_key method endpoint files data params)
             (log_request method (Lit BASE_URL # endpoint) files data params attempt max_attempts st) of
        (Response r, st1) \<Rightarrow> handle_response r st1
      | (Timeout, st1) \<Rightarrow>
          (let st2 = log ERROR [Lit ''Request timed out: '', Exc] st1 in
           if attempt < max_attempts then
             (let st3 = log INFO [Lit ''Retrying in '', Val (PInt (5 * attempt)), Lit '' seconds...''] st2 in
              if 5 * attempt < 0 then (Inl ValueError, st3)
              else make_api_request E api_key method endpoint files data params
                     (attempt + 1) max_attempts (emit (Sleep (5 * attempt)) st3))
           else (Inr (PNone, None), st2))
      | (ConnectionError, st1) \<Rightarrow>
          (Inr (PNone, None), log ERROR [Lit ''Connection error occurred: '', Exc] st1)
      | (RequestException, st1) \<Rightarrow>
          (Inr (PNone, None),
           log ERROR [Lit ''An unexpected error occurred with the request: '', Exc] st1)
      | (Raised e, st1) \<Rightarrow> (Inl e, st1))"
  by pat_completeness auto
termination
  by (relation "measure (\<lambda>(E, k, m, ep, f, d, p, attempt, max_attempts, st). nat (max_attempts - attempt))")
     auto

section \<open>app.py: the job driver\<close>

definition max_polls :: nat where
  "max_polls = 60"

definition poll_interval_seconds :: int where
  "poll_interval_seconds = 5"

definition terminal_failure_statuses :: "pyval list" where
  "terminal_failure_statuses =
     [PStr ''error_tier_limit_exceeded'', PStr ''error_job_not_found'',
      PStr ''error_missing_estimation_data'', PStr ''failed'', PStr ''enqueue_failed'']"

definition status_endpoint :: "pyval \<Rightarrow> fstr" where
  "status_endpoint job_id = [Lit ''/status/'', Val job_id]"

definition msg_polling_attempt :: "nat \<Rightarrow> fstr" where
  "msg_polling_attempt i =
     [Lit ''Polling attempt '', Val (PInt (int i + 1)), Lit ''/'', Val (PInt (int max_polls)),
      Lit ''...'']"

definition msg_current_status :: "pyval \<Rightarrow> pyval \<Rightarrow> fstr" where
  "msg_current_status job_id status =
     [Lit ''Job '', Val job_id, Lit '' current status: '', Val status]"

definition msg_polling_failed :: fstr where
  "msg_polling_failed = [Lit ''Polling failed: Could not get status response.'']"

definition msg_no_download_url :: fstr where
  "msg_no_download_url = [Lit ''Job completed but no download URL provided by API!'']"

definition msg_completed :: "pyval \<Rightarrow> pyval \<Rightarrow> fstr" where
  "msg_completed job_id download_url =
     [Lit ''Job '', Val job_id, Lit '' COMPLETED. Download URL: '', Val download_url]"

definition msg_job_ended :: "pyval \<Rightarrow> pyval \<Rightarrow> pyval \<Rightarrow> fstr" where
  "msg_job_ended job_id current_api_status error_msg =
     [Lit ''Job '', Val job_id, Lit ('' ended with status '' @ [CHR 0x27]),
      Val current_api_status, Lit (CHR 0x27 # ''. Error: ''), Val error_msg]"

definition msg_polling_finished :: "pyval \<Rightarrow> fstr" where
  "msg_polling_finished current_api_status =
     [Lit ''Polling finished after '', Val (PInt (int max_polls)),
      Lit '' attempts. Job did not complete. Last known status: '', Val current_api_status]"

text \<open>
  How the \<open>for\<close> loop of lines 110 to 139 is left: by a \<open>return\<close> of the function, or by
  \<open>break\<close> with the download URL.
\<close>

datatype loop_exit = Return bool | Break pyval

text \<open>
  One pass through the body of the loop, lines 111 to 136, at index \<open>i\<close>: it leaves the
  loop, or goes on to the next index with the status it has seen.
\<close>

datatype iteration = Leave "pyerror + loop_exit" | Continue pyval

definition poll_iteration ::
  "env \<Rightarrow> pyval \<Rightarrow> pyval \<Rightarrow> nat \<Rightarrow> state \<Rightarrow> iteration \<times> state" where
  "poll_iteration E api_key job_id i st =
     (case make_api_request E api_key ''GET'' (status_endpoint job_id) [] [] [] 1 3
             (log INFO (msg_polling_attempt i) st) of
        (Inl e, st1) \<Rightarrow> (Leave (Inl e), st1)
      | (Inr (status_response, poll_status_code), st1) \<Rightarrow>
          if \<not> truthy status_response then
            (Leave (Inr (Return False)), log ERROR msg_polling_failed st1)
          else
            (case py_get status_response ''status'' PNone of
               Inl e \<Rightarrow> (Leave (Inl e), st1)
             | Inr status \<Rightarrow>
                 (let st2 = log INFO (msg_current_status job_id status) st1 in
                  if status = PStr ''completed'' then
                    (case py_get status_response ''download_url'' PNone of
                       Inl e \<Rightarrow> (Leave (Inl e), st2)
                     | Inr download_url \<Rightarrow>
                         if \<not> truthy download_url then
                           (Leave (Inr (Return False)), log ERROR msg_no_download_url st2)
                         else
                           (Leave (Inr (Break download_url)),
                            log INFO (msg_completed job_id download_url) st2))
                  else if status \<in> set terminal_failure_statuses then
                    (case py_get status_response ''error_message''
                            (PStr ''No specific error message provided by API.'') of
                       Inl e \<Rightarrow> (Leave (Inl e), st2)
                     | Inr error_msg \<Rightarrow>
                         (Leave (Inr (Return False)),
                          log ERROR (msg_job_ended job_id status error_msg) st2))
                  else
                    (Continue status,
                     if i < max_polls - 1
                     then emit (Sleep poll_interval_seconds)
                            (log INFO [Lit ''Waiting '', Val (PInt poll_interval_seconds),
                                       Lit ''s before next poll...''] st2)
                     else st2))))"

text \<open>
  The loop from index \<open>i\<close> on, with its \<open>else\<close> clause. \<open>current_api_status\<close> is the
  variable of that name: the status seen by the iteration before (unbound before the
  first one, which never reads it).
\<close>

function poll_loop ::
  "env \<Rightarrow> pyval \<Rightarrow> pyval \<Rightarrow> nat \<Rightarrow> pyval \<Rightarrow> state \<Rightarrow> (pyerror + loop_exit) \<times> state" where
  "poll_loop E api_key job_id i current_api_status st =
     (if i < max_polls then
        (case poll_iteration E api_key job_id i st of
           (Leave r, st1) \<Rightarrow> (r, st1)
         | (Continue status, st1) \<Rightarrow> poll_loop E api_key job_id (Suc i) status st1)
      else (Inr (Return False), log WARNING (msg_polling_finished current_api_status) st))"
  by pat_completeness auto
termination
  by (relation "measure (\<lambda>(E, k, j, i, c, st). max_polls - i)") auto

text \<open>Step 3, lines 141 to 161, entered when the loop was left by \<open>break\<close>.\<close>

definition download_request :: "pyval \<Rightarrow> request" where
  "download_request download_url = Request ''GET'' [Val download_url] [] [] [] [] (10, 120)"

definition msg_download_failed :: "pyval \<Rightarrow> fstr" where
  "msg_download_failed download_url =
     [Lit ''Failed to download translated PDF from '', Val download_url, Lit ''. Error: '', Exc]"

definition msg_step3 :: "pyval \<Rightarrow> fstr" where
  "msg_step3 download_url =
     [Lit (CHR 0x0A # ''Step 3: Downloading translated file from ''), Val download_url, Lit ''...'']"

definition msg_downloaded :: "path \<Rightarrow> fstr" where
  "msg_downloaded output_path =
     [Lit ''Translated PDF successfully downloaded to: '', Pth output_path]"

definition msg_download_timed_out :: "pyval \<Rightarrow> fstr" where
  "msg_download_timed_out download_url =
     [Lit ''Download timed out from '', Val download_url, Lit ''.'']"

definition download_file :: "env \<Rightarrow> pyval \<Rightarrow> path \<Rightarrow> state \<Rightarrow> (pyerror + bool) \<times> state" where
  "download_file E download_url output_path st =
     (if truthy download_url then
        (case http_call E (download_request download_url)
                (log INFO (msg_step3 download_url) st) of
           (Response r, st1) \<Rightarrow>
             if 400 \<le> status_code r \<and> status_code r < 600 then
               (Inr False, log ERROR (msg_download_failed download_url) st1)
             else if os_error E output_path then (Inl OSError, st1)
             else
               (Inr True,
                log INFO (msg_downloaded output_path)
                  (emit (WriteFile output_path (content r))
                     (st1\<lparr>written := (written st1)(output_path \<mapsto> content r)\<rparr>)))
         | (Timeout, st1) \<Rightarrow>
             (Inr False, log ERROR (msg_download_timed_out download_url) st1)
         | (ConnectionError, st1) \<Rightarrow>
             (Inr False, log ERROR (msg_download_failed download_url) st1)
         | (RequestException, st1) \<Rightarrow>
             (Inr False, log ERROR (msg_download_failed download_url) st1)
         | (Raised e, st1) \<Rightarrow> (Inl e, st1))
      else
        (Inr False,
         log ERROR [Lit ''No download URL was available after job completion, cannot download.''] st))"

text \<open>Lines 110 to 161: the rest of \<open>translate_pdf\<close> from loop index \<open>i\<close> on.\<close>

definition poll_and_download ::
  "env \<Rightarrow> pyval \<Rightarrow> pyval \<Rightarrow> path \<Rightarrow> nat \<Rightarrow> pyval \<Rightarrow> state \<Rightarrow> (pyerror + bool) \<times> state" where
  "poll_and_download E api_key job_id output_path i current_api_status st =
     (case poll_loop E api_key job_id i current_api_status st of
        (Inl e, st1) \<Rightarrow> (Inl e, st1)
      | (Inr (Return b), st1) \<Rightarrow> (Inr b, st1)
      | (Inr (Break download_url), st1) \<Rightarrow> download_file E download_url output_path st1)"

text \<open>
  The test of line 97, left to right with Python's short-circuit \<open>and\<close>; the result is the
  job id when the submission is accepted.
\<close>

definition submission_accepted :: "pyval \<Rightarrow> int option \<Rightarrow> pyerror + pyval option" where
  "submission_accepted init_response status_code' =
     (if \<not> (status_code' = Some 202 \<or> status_code' = Some 200) then Inr None
      else if \<not> truthy init_response then Inr None
      else (case py_get init_response ''job_id'' PNone of
              Inl e \<Rightarrow> Inl e
            | Inr job_id \<Rightarrow>
                if \<not> truthy job_id then Inr None
                else (case py_get init_response ''status'' PNone of
                        Inl e \<Rightarrow> Inl e
                      | Inr status \<Rightarrow> if truthy status then Inr (Some job_id) else Inr None)))"

definition translate_endpoint :: "string \<Rightarrow> fstr" where
  "translate_endpoint tier = [Lit ''/translate/'', Val (PStr tier)]"

definition upload_of :: "path \<Rightarrow> upload" where
  "upload_of pdf_path = [(''file'', path_name pdf_path, pdf_path, ''application/pdf'')]"

definition msg_job_initiated :: "pyval \<Rightarrow> pyval \<Rightarrow> fstr" where
  "msg_job_initiated job_id status =
     [Lit ''Job initiated successfully. Job ID: '', Val job_id, Lit '', Status: '', Val status]"

definition msg_failed_to_initiate :: "pyval \<Rightarrow> int option \<Rightarrow> fstr" where
  "msg_failed_to_initiate init_response status_code' =
     [Lit ''Failed to initiate job. Status: '',
      (case status_code' of None \<Rightarrow> Val PNone | Some c \<Rightarrow> Val (PInt c)),
      Lit '', Response: '',
      (if truthy init_response then Val init_response else Lit ''No response data'')]"

text \<open>Lines 81 to 91: the logs before the existence test and before the submission.\<close>

definition start_logs :: "path \<Rightarrow> pyval \<Rightarrow> string \<Rightarrow> state \<Rightarrow> state" where
  "start_logs pdf_path target_lang tier st =
     log INFO [Lit ''PDF: '', Lit (path_name pdf_path), Lit '', Target Language: '',
               Val target_lang, Lit '', Tier: '', Val (PStr tier)]
       (log INFO [Lit ''--- Starting PDF Translation ---''] st)"

definition submit_state :: "path \<Rightarrow> pyval \<Rightarrow> string \<Rightarrow> state \<Rightarrow> state" where
  "submit_state pdf_path target_lang tier st =
     log INFO [Lit ''Step 1: Initiating Translation Job...''] (start_logs pdf_path target_lang tier st)"

text \<open>Lines 104 to 108: the state in which the loop starts.\<close>

definition polling_state :: "pyval \<Rightarrow> pyval \<Rightarrow> state \<Rightarrow> state" where
  "polling_state job_id status st =
     log INFO [Lit (CHR 0x0A # ''Step 2: Polling Job Status for ''), Val job_id, Lit ''...'']
       (log INFO (msg_job_initiated job_id status) st)"

text \<open>Line 95: the submission, with the file open.\<close>

definition submit_job ::
  "env \<Rightarrow> pyval \<Rightarrow> path \<Rightarrow> pyval \<Rightarrow> string \<Rightarrow> state \<Rightarrow> (pyerror + pyval \<times> int option) \<times> state" where
  "submit_job E api_key pdf_path target_lang tier st =
     make_api_request E api_key ''POST'' (translate_endpoint tier) (upload_of pdf_path)
       [(''target_lang'', target_lang)] [] 1 3 (submit_state pdf_path target_lang tier st)"

definition translate_pdf ::
  "env \<Rightarrow> pyval \<Rightarrow> path \<Rightarrow> pyval \<Rightarrow> string \<Rightarrow> path \<Rightarrow> state \<Rightarrow> (pyerror + bool) \<times> state" where
  "translate_pdf E api_key pdf_path target_lang tier output_path st =
     (if \<not> path_exists E pdf_path then
        (Inr False,
         log ERROR [Lit ''Input PDF file '', Pth pdf_path, Lit '' not found.'']
           (start_logs pdf_path target_lang tier st))
      else if os_error E pdf_path then (Inl OSError, submit_state pdf_path target_lang tier st)
      else
        (case submit_job E api_key pdf_path target_lang tier st of
           (Inl e, st1) \<Rightarrow> (Inl e, st1)
         | (Inr (init_response, status_code'), st1) \<Rightarrow>
             (case submission_accepted init_response status_code' of
                Inl e \<Rightarrow> (Inl e, st1)
              | Inr None \<Rightarrow>
                  (Inr False, log ERROR (msg_failed_to_initiate init_response status_code') st1)
              | Inr (Some job_id) \<Rightarrow>
                  (case py_get init_response ''status'' PNone of
                     Inl e \<Rightarrow> (Inl e, st1)
                   | Inr status \<Rightarrow>
                       poll_and_download E api_key job_id output_path 0 PNone
                         (polling_state job_id status st1)))))"

section \<open>batch_translate_test.py: the batch driver\<close>

text \<open>
  The names that the statements of app.py bind at module level; \<open>from app import a, b\<close>
  looks each name up there and raises ImportError at the first one that is missing.
\<close>

definition app_module_names :: "string list" where
  "app_module_names =
     [''os'', ''time'', ''requests'', ''argparse'', ''logging'', ''Path'', ''log'',
      ''RAPIDAPI_HOST'', ''BASE_URL'', ''make_api_request'', ''translate_pdf'',
      ''analyze_pdf_main'', ''main_cli'']"

fun import_from :: "string list \<Rightarrow> string list \<Rightarrow> pyerror + unit" where
  "import_from module_names [] = Inr ()"
| "import_from module_names (n # ns) =
     (if n \<in> set module_names then import_from module_names ns else Inl ImportError)"

text \<open>\<open>Path.stem\<close> and \<open>Path.suffix\<close>: the name is cut at its last dot, unless that dot
  is the first or the last character.\<close>

definition dot_index :: "string \<Rightarrow> nat option" where
  "dot_index name =
     (let r = length (takeWhile (\<lambda>c. c \<noteq> CHR ''.'') (rev name))
      in if r = length name \<or> r = 0 \<or> length name - r - 1 = 0 then None
         else Some (length name - r - 1))"

definition path_stem :: "path \<Rightarrow> string" where
  "path_stem p = (case dot_index (path_name p) of None \<Rightarrow> path_name p
                  | Some i \<Rightarrow> take i (path_name p))"

definition path_suffix :: "path \<Rightarrow> string" where
  "path_suffix p = (case dot_index (path_name p) of None \<Rightarrow> []
                    | Some i \<Rightarrow> drop i (path_name p))"

text \<open>A cell of the CSV is a string, or None where the row is too short.\<close>

definition lang_val :: "string option \<Rightarrow> pyval" where
  "lang_val c = (case c of None \<Rightarrow> PNone | Some s \<Rightarrow> PStr s)"

definition lang_str :: "string option \<Rightarrow> string" where
  "lang_str c = (case c of None \<Rightarrow> ''None'' | Some s \<Rightarrow> s)"

definition output_pdf_path :: "path \<Rightarrow> path \<Rightarrow> string option \<Rightarrow> path" where
  "output_pdf_path output_dir_base input_pdf lang_code =
     output_dir_base @
       [''translated_'' @ path_stem input_pdf @ ''_'' @ lang_str lang_code @ path_suffix input_pdf]"

definition msg_translation_failed :: "string option \<Rightarrow> fstr" where
  "msg_translation_failed lang_code =
     [Lit (''Translation failed for language '' @ [CHR 0x27]), Val (lang_val lang_code),
      Lit (CHR 0x27 # ''. Check previous logs.'')]"

text \<open>
  The body of the loop of lines 55 to 82 for one language. \<open>supported\<close> is the list that
  line 60 reads under the name SUPPORTED_TARGET_LANGUAGES.
\<close>

definition test_language ::
  "env \<Rightarrow> pyval list \<Rightarrow> pyval \<Rightarrow> path \<Rightarrow> string \<Rightarrow> path \<Rightarrow> string option \<Rightarrow> state \<Rightarrow> state" where
  "test_language E supported api_key input_pdf tier output_dir_base lang_code st =
     (let st1 = log INFO [Lit (CHR 0x5C # ''n--- Testing Language: ''), Val (lang_val lang_code),
                          Lit '' ---''] st;
          st2 = (if lang_val lang_code \<notin> set supported
                 then log WARNING [Lit (''Language code '' @ [CHR 0x27]), Val (lang_val lang_code),
                        Lit (CHR 0x27 # '' from CSV is not in app.py'' @ [CHR 0x27] @
                             ''s SUPPORTED_TARGET_LANGUAGES list. Attempting anyway...'')] st1
                 else st1);
          out = output_pdf_path output_dir_base input_pdf lang_code;
          st4 = (case translate_pdf E api_key input_pdf (lang_val lang_code) tier out st2 of
                   (Inr True, st3) \<Rightarrow>
                     log INFO [Lit (''Successfully translated and saved for language '' @ [CHR 0x27]),
                               Val (lang_val lang_code), Lit (CHR 0x27 # '' to ''), Pth out] st3
                 | (Inr False, st3) \<Rightarrow> log ERROR (msg_translation_failed lang_code) st3
                 | (Inl e, st3) \<Rightarrow>
                     log ERROR [Lit ''An unexpected error occurred while processing language '',
                                Val (lang_val lang_code), Lit '': '', Exc] st3)
      in log INFO [Lit ''--- Finished Testing Language: '', Val (lang_val lang_code), Lit '' ---''] st4)"

fun test_languages ::
  "env \<Rightarrow> pyval list \<Rightarrow> pyval \<Rightarrow> path \<Rightarrow> string \<Rightarrow> path \<Rightarrow> string option list \<Rightarrow> state \<Rightarrow> state" where
  "test_languages E supported api_key input_pdf tier output_dir_base [] st = st"
| "test_languages E supported api_key input_pdf tier output_dir_base (lang_code # rest) st =
     test_languages E supported api_key input_pdf tier output_dir_base rest
       (test_language E supported api_key input_pdf tier output_dir_base lang_code st)"

definition batch_start_logs :: "path \<Rightarrow> string \<Rightarrow> path \<Rightarrow> path \<Rightarrow> state \<Rightarrow> state" where
  "batch_start_logs input_pdf tier output_dir_base languages_csv_path st =
     log INFO [Lit ''Languages CSV: '', Pth languages_csv_path]
       (log INFO [Lit ''Base Output Directory: '', Pth output_dir_base]
          (log INFO [Lit ''Tier: '', Val (PStr tier)]
             (log INFO [Lit ''Input PDF: '', Pth input_pdf]
                (log INFO [Lit ''--- Starting Batch Language Translation Test ---''] st))))"

text \<open>
  \<open>run_batch_translation_test\<close>. \<open>read_csv\<close> is what reading the file gives: nothing when
  \<open>open\<close> or the decoding raises, else the header (None for an empty file, where the
  membership test raises TypeError inside the \<open>try\<close>) and the language_code cells.
\<close>

definition run_batch_translation_test ::
  "env \<Rightarrow> (path \<Rightarrow> (string list option \<times> string option list) option) \<Rightarrow> pyval list \<Rightarrow> pyval
   \<Rightarrow> path \<Rightarrow> string \<Rightarrow> path \<Rightarrow> path \<Rightarrow> state \<Rightarrow> state" where
  "run_batch_translation_test E read_csv supported api_key input_pdf tier output_dir_base
       languages_csv_path st =
     (let st1 = batch_start_logs input_pdf tier output_dir_base languages_csv_path st in
      if \<not> truthy api_key then
        log ERROR [Lit ''RapidAPI Key is required. Please provide it via --api_key argument or set the RAPIDAPI_KEY environment variable.''] st1
      else if \<not> path_exists E input_pdf then
        log ERROR [Lit ''Input PDF '', Pth input_pdf, Lit '' not found. Aborting.''] st1
      else if \<not> path_exists E languages_csv_path then
        log ERROR [Lit ''Languages CSV file '', Pth languages_csv_path, Lit '' not found. Aborting.''] st1
      else
        (case read_csv languages_csv_path of
           None \<Rightarrow> log ERROR [Lit ''Failed to read or parse languages CSV: '', Exc] st1
         | Some (None, cells) \<Rightarrow> log ERROR [Lit ''Failed to read or parse languages CSV: '', Exc] st1
         | Some (Some fieldnames, languages_to_test) \<Rightarrow>
             if ''language_code'' \<notin> set fieldnames then
               log ERROR [Lit (''CSV file must contain a '' @ [CHR 0x27] @ ''language_code'' @
                               [CHR 0x27] @ '' header.'')] st1
             else
               (let st2 = log INFO [Lit ''Found '', Val (PInt (int (length languages_to_test))),
                                    Lit '' languages to test: '',
                                    Val (PList (map lang_val languages_to_test))] st1
                in if languages_to_test = [] then
                     log INFO [Lit ''No languages found in CSV to test.''] st2
                   else
                     log INFO [Lit (CHR 0x5C # ''n--- Batch Language Translation Test Finished ---'')]
                       (test_languages E supported api_key input_pdf tier output_dir_base
                          languages_to_test st2))))"

text \<open>
  Running the script: the import of line 7 comes before everything else of the module.
  app.py binds no name SUPPORTED_TARGET_LANGUAGES; \<open>supported\<close> stands for the object
  the loop would read had the import bound it.
\<close>

definition batch_translate_test_script ::
  "env \<Rightarrow> (path \<Rightarrow> (string list option \<times> string option list) option) \<Rightarrow> pyval list \<Rightarrow> pyval
   \<Rightarrow> path \<Rightarrow> string \<Rightarrow> path \<Rightarrow> path \<Rightarrow> state \<Rightarrow> (pyerror + unit) \<times> state" where
  "batch_translate_test_script E read_csv supported api_key input_pdf tier output_dir_base
       languages_csv_path st =
     (case import_from app_module_names [''translate_pdf'', ''SUPPORTED_TARGET_LANGUAGES''] of
        Inl e \<Rightarrow> (Inl e, st)
      | Inr u \<Rightarrow>
          (Inr (), run_batch_translation_test E read_csv supported api_key input_pdf tier
                     output_dir_base languages_csv_path st))"

section \<open>Reading a trace\<close>

fun requests_of :: "event list \<Rightarrow> request list" where
  "requests_of [] = []"
| "requests_of (Http r # es) = r # requests_of es"
| "requests_of (Log l m # es) = requests_of es"
| "requests_of (Sleep n # es) = requests_of es"
| "requests_of (WriteFile p b # es) = requests_of es"

fun sleeps_of :: "event list \<Rightarrow> int list" where
  "sleeps_of [] = []"
| "sleeps_of (Sleep n # es) = n # sleeps_of es"
| "sleeps_of (Log l m # es) = sleeps_of es"
| "sleeps_of (Http r # es) = sleeps_of es"
| "sleeps_of (WriteFile p b # es) = sleeps_of es"

definition status_request :: "pyval \<Rightarrow> pyval \<Rightarrow> request" where
  "status_request api_key job_id = api_request api_key ''GET'' (status_endpoint job_id) [] [] []"

definition submit_request :: "pyval \<Rightarrow> path \<Rightarrow> pyval \<Rightarrow> string \<Rightarrow> request" where
  "submit_request api_key pdf_path target_lang tier =
     api_request api_key ''POST'' (translate_endpoint tier) (upload_of pdf_path)
       [(''target_lang'', target_lang)] []"

text \<open>
  What an iteration of the loop does when the helper hands it the dict \<open>d\<close>, read off
  lines 118 to 136.
\<close>

definition classify :: "(string \<times> pyval) list \<Rightarrow> iteration" where
  "classify d =
     (if dict_get d ''status'' = PStr ''completed'' then
        (if truthy (dict_get d ''download_url'')
         then Leave (Inr (Break (dict_get d ''download_url'')))
         else Leave (Inr (Return False)))
      else if dict_get d ''status'' \<in> set terminal_failure_statuses then Leave (Inr (Return False))
      else Continue (dict_get d ''status''))"

text \<open>
  A poll answer that carries a non-terminal status: a response that the helper passes on
  (not 401, not 5xx) whose body is a non-empty object with a status that is neither
  completed nor a terminal failure.
\<close>

definition in_progress :: "http_outcome \<Rightarrow> bool" where
  "in_progress out =
     (case out of
        Response r \<Rightarrow>
          status_code r \<noteq> 401 \<and> \<not> (500 \<le> status_code r \<and> status_code r < 600) \<and>
          (case json_body r of
             Some (PDict d) \<Rightarrow>
               d \<noteq> [] \<and> dict_get d ''status'' \<noteq> PStr ''completed'' \<and>
               dict_get d ''status'' \<notin> set terminal_failure_statuses
           | _ \<Rightarrow> False)
      | _ \<Rightarrow> False)"

definition observed_status :: "http_outcome \<Rightarrow> pyval" where
  "observed_status out =
     (case out of
        Response r \<Rightarrow> (case json_body r of Some (PDict d) \<Rightarrow> dict_get d ''status'' | _ \<Rightarrow> PNone)
      | _ \<Rightarrow> PNone)"

text \<open>
  The index \<open>i\<close> of a polling attempt, read off its log line (line 111): the loop logs
  this line once, just before each call of the helper at line 112.
\<close>

definition attempt_index :: "event \<Rightarrow> nat option" where
  "attempt_index e =
     (case e of
        Log l m \<Rightarrow>
          (if length m = 5 then
             (case m ! 1 of
                Val (PInt n) \<Rightarrow>
                  if 1 \<le> n \<and> l = INFO \<and> m = msg_polling_attempt (nat (n - 1))
                  then Some (nat (n - 1)) else None
              | _ \<Rightarrow> None)
           else None)
      | _ \<Rightarrow> None)"

fun polling_attempts :: "event list \<Rightarrow> nat list" where
  "polling_attempts [] = []"
| "polling_attempts (e # es) =
     (case attempt_index e of None \<Rightarrow> polling_attempts es | Some i \<Rightarrow> i # polling_attempts es)"







text \<open>A later state of the same run: the trace has grown and no file has changed.\<close>

definition extends :: "state \<Rightarrow> state \<Rightarrow> bool" where
  "extends st st' =
     ((\<exists>evs. trace st' = trace st @ evs) \<and> written st' = written st \<and> calls st \<le> calls st')"

definition initial_state :: state where
  "initial_state = \<lparr>calls = 0, trace = [], written = (\<lambda>p. None)\<rparr>"

section \<open>Concrete environments\<close>

definition resp :: "int \<Rightarrow> pyval option \<Rightarrow> bytes \<Rightarrow> response" where
  "resp c j b = \<lparr>status_code = c, json_body = j, text_of = [], content = b\<rparr>"

text \<open>An environment in which every path exists and can be opened.\<close>

definition env_of :: "(nat \<Rightarrow> http_outcome) \<Rightarrow> env" where
  "env_of f = \<lparr>net = f, path_exists = (\<lambda>p. True), os_error = (\<lambda>p. False)\<rparr>"

definition env_timeouts :: env where
  "env_timeouts = env_of (\<lambda>n. Timeout)"

definition accepted_body :: pyval where
  "accepted_body = PDict [(''job_id'', PStr ''abc''), (''status'', PStr ''queued'')]"

definition processing_body :: pyval where
  "processing_body = PDict [(''status'', PStr ''processing'')]"

definition completed_body :: pyval where
  "completed_body =
     PDict [(''status'', PStr ''completed''), (''download_url'', PStr ''https://cdn/x.pdf'')]"

text \<open>The submission is accepted with 202 and every poll answers processing.\<close>

definition env_in_progress :: env where
  "env_in_progress =
     env_of (\<lambda>n. if n = 0 then Response (resp 202 (Some accepted_body) [])
                 else Response (resp 200 (Some processing_body) []))"


text \<open>Every call is answered 200 with the same JSON body.\<close>

definition env_poll :: "pyval \<Rightarrow> env" where
  "env_poll body = env_of (\<lambda>n. Response (resp 200 (Some body) []))"



text \<open>
  The job is accepted and the first poll is completed with the URL; every later call, the
  download among them, has the outcome \<open>d\<close>.
\<close>

definition env_download :: "http_outcome \<Rightarrow> env" where
  "env_download d =
     env_of (\<lambda>n. if n = 0 then Response (resp 202 (Some accepted_body) [])
                 else if n = 1 then Response (resp 200 (Some completed_body) [])
                 else d)"

text \<open>A 403 whose body is the JSON string "Forbidden".\<close>

definition env_forbidden_text :: env where
  "env_forbidden_text = env_of (\<lambda>n. Response (resp 403 (Some (PStr ''Forbidden'')) []))"

text \<open>
  The batch scenario: es is accepted, completed and downloaded (calls 0 to 2), then the
  submission for fr is answered 403.
\<close>

definition env_es_fr :: env where
  "env_es_fr =
     env_of (\<lambda>n. if n = 0 then Response (resp 202 (Some accepted_body) [])
                 else if n = 1 then Response (resp 200 (Some completed_body) [])
                 else if n = 2 then Response (resp 200 None ''%PDF-1.7'')
                 else Response (resp 403 (Some (PDict [(''message'', PStr ''quota exceeded'')])) []))"

definition csv_es_fr :: "path \<Rightarrow> (string list option \<times> string option list) option" where
  "csv_es_fr p = Some (Some [''language_code''], [Some ''es'', Some ''fr''])"

text \<open>
  The submission is answered 202 with a job id and a status field that is the empty
  string.
\<close>

definition empty_status_body :: pyval where
  "empty_status_body = PDict [(''job_id'', PStr ''abc''), (''status'', PStr [])]"

definition env_empty_status :: env where
  "env_empty_status = env_of (\<lambda>n. Response (resp 202 (Some empty_status_body) []))"



section \<open>Basic facts\<close>

declare make_api_request.simps [simp del] poll_loop.simps [simp del]

lemma env_of_simps [simp]:
  "net (env_of f) = f" "path_exists (env_of f) p" "\<not> os_error (env_of f) p"
  by (simp_all add: env_of_def)

lemma requests_of_append [simp]: "requests_of (xs @ ys) = requests_of xs @ requests_of ys"
  by (induction xs rule: requests_of.induct) simp_all

lemma sleeps_of_append [simp]: "sleeps_of (xs @ ys) = sleeps_of xs @ sleeps_of ys"
  by (induction xs rule: sleeps_of.induct) simp_all

lemma log_simps [simp]:
  "calls (log l m st) = calls st"
  "trace (log l m st) = trace st @ [Log l m]"
  "written (log l m st) = written st"
  by (simp_all add: log_def emit_def)

lemma emit_simps [simp]:
  "calls (emit e st) = calls st"
  "trace (emit e st) = trace st @ [e]"
  "written (emit e st) = written st"
  by (simp_all add: emit_def)

lemma http_call_simps [simp]:
  "fst (http_call E rq st) = net E (calls st)"
  "calls (snd (http_call E rq st)) = Suc (calls st)"
  "trace (snd (http_call E rq st)) = trace st @ [Http rq]"
  "written (snd (http_call E rq st)) = written st"
  by (simp_all add: http_call_def)

lemma log_request_simps [simp]:
  "calls (log_request m u f d p a ma st) = calls st"
  "written (log_request m u f d p a ma st) = written st"
  "requests_of (trace (log_request m u f d p a ma st)) = requests_of (trace st)"
  "sleeps_of (trace (log_request m u f d p a ma st)) = sleeps_of (trace st)"
  by (simp_all add: log_request_def Let_def)

lemma extends_refl [simp]: "extends st st"
  by (simp add: extends_def)

lemma extends_trans: "extends a b \<Longrightarrow> extends b c \<Longrightarrow> extends a c"
  by (auto simp: extends_def)

lemma extends_log [simp]: "extends st st' \<Longrightarrow> extends st (log l m st')"
  by (auto simp: extends_def)

lemma extends_emit [simp]: "extends st st' \<Longrightarrow> extends st (emit e st')"
  by (auto simp: extends_def)

lemma extends_log_request [simp]:
  "extends st st' \<Longrightarrow> extends st (log_request m u f d p a ma st')"
  by (simp add: log_request_def Let_def)

lemma extends_http_call [simp]: "extends st st' \<Longrightarrow> extends st (snd (http_call E rq st'))"
  by (auto simp: extends_def http_call_def)

lemma extends_handle_response [simp]:
  "extends st st1 \<Longrightarrow> extends st (snd (handle_response r st1))"
  by (simp add: handle_response_def Let_def split: option.splits sum.splits)

lemma make_api_request_extends:
  "extends st0 st \<Longrightarrow> extends st0 (snd (make_api_request E k m ep f d p a ma st))"
proof (induction "nat (ma - a)" arbitrary: a st)
  case 0
  then show ?case
    apply (subst make_api_request.simps)
    apply (simp add: Let_def split: prod.splits http_outcome.splits)
    apply (auto dest!: arg_cong[where f=snd])
    done
next
  case (Suc x)
  then show ?case
    apply (subst make_api_request.simps)
    apply (simp add: Let_def split: prod.splits http_outcome.splits)
    apply (auto dest!: arg_cong[where f=snd])
    done
qed

lemma make_api_request_Response:
  "net E (calls st) = Response r \<Longrightarrow>
   make_api_request E k m ep f d p a ma st =
     handle_response r (snd (http_call E (api_request k m ep f d p)
                               (log_request m (Lit BASE_URL # ep) f d p a ma st)))"
  by (subst make_api_request.simps) (simp add: http_call_def)

lemma handle_response_simps [simp]:
  "calls (snd (handle_response r st)) = calls st"
  "written (snd (handle_response r st)) = written st"
  "requests_of (trace (snd (handle_response r st))) = requests_of (trace st)"
  "sleeps_of (trace (snd (handle_response r st))) = sleeps_of (trace st)"
  by (simp_all add: handle_response_def Let_def split: option.splits sum.splits)

lemma handle_response_object:
  "status_code r \<noteq> 401 \<Longrightarrow> \<not> (500 \<le> status_code r \<and> status_code r < 600) \<Longrightarrow>
   json_body r = Some (PDict d) \<Longrightarrow>
   fst (handle_response r st) = Inr (PDict d, Some (status_code r))"
  by (auto simp add: handle_response_def Let_def error_message_arg_def)

lemma extends_log_last:
  "extends st0 st \<Longrightarrow>
   written (log l m st) = written st0 \<and> (\<exists>evs. trace (log l m st) = trace st0 @ evs @ [Log l m])"
  by (auto simp: extends_def)

lemma poll_iteration_extends:
  assumes "extends st0 st"
  shows "extends st0 (snd (poll_iteration E k j i st))"
proof -
  obtain r st1 where mk: "make_api_request E k ''GET'' (status_endpoint j) [] [] [] 1 3
                            (log INFO (msg_polling_attempt i) st) = (r, st1)"
    by fastforce
  have "extends st0 (log INFO (msg_polling_attempt i) st)" using assms by simp
  from make_api_request_extends[OF this, of E k "''GET''" "status_endpoint j" "[]" "[]" "[]" 1 3]
  have e1: "extends st0 st1" by (simp add: mk)
  show ?thesis
    using e1 by (simp add: poll_iteration_def mk Let_def split: sum.splits prod.splits)
qed

lemma poll_iteration_Break:
  assumes "extends st0 st" and "poll_iteration E k j i st = (Leave (Inr (Break url)), st')"
  shows "truthy url \<and> written st' = written st0
         \<and> (\<exists>evs. trace st' = trace st0 @ evs @ [Log INFO (msg_completed j url)])"
proof -
  obtain r st1 where mk: "make_api_request E k ''GET'' (status_endpoint j) [] [] [] 1 3
                            (log INFO (msg_polling_attempt i) st) = (r, st1)"
    by fastforce
  have "extends st0 (log INFO (msg_polling_attempt i) st)" using assms by simp
  from make_api_request_extends[OF this, of E k "''GET''" "status_endpoint j" "[]" "[]" "[]" 1 3]
  have e1: "extends st0 st1" by (simp add: mk)
  then have e2: "\<And>s. extends st0 (log INFO (msg_current_status j s) st1)" by simp
  show ?thesis
    using assms(2) extends_log_last[OF e2]
    by (auto simp add: poll_iteration_def mk Let_def split: sum.splits prod.splits if_splits)
qed

lemma poll_loop_extends: "extends st0 st \<Longrightarrow> extends st0 (snd (poll_loop E k j i c st))"
proof (induction "max_polls - i" arbitrary: i c st)
  case 0
  then show ?case
    by (subst poll_loop.simps) simp
next
  case (Suc x)
  from Suc.hyps(2) have lt: "i < max_polls" and x: "x = max_polls - Suc i" by simp_all
  obtain it st1 where it: "poll_iteration E k j i st = (it, st1)" by fastforce
  have e1: "extends st0 st1"
    using poll_iteration_extends[OF Suc.prems, of E k j i] by (simp add: it)
  show ?case
    using lt e1 Suc.hyps(1)[OF x e1]
    by (subst poll_loop.simps) (simp add: it split: iteration.splits)
qed

lemma poll_loop_Break:
  "extends st0 st \<Longrightarrow> poll_loop E k j i c st = (Inr (Break url), st') \<Longrightarrow>
   truthy url \<and> written st' = written st0
   \<and> (\<exists>evs. trace st' = trace st0 @ evs @ [Log INFO (msg_completed j url)])"
proof (induction "max_polls - i" arbitrary: i c st)
  case 0
  then show ?case
    by (subst (asm) poll_loop.simps) simp
next
  case (Suc x)
  from Suc.hyps(2) have lt: "i < max_polls" and x: "x = max_polls - Suc i" by simp_all
  obtain it st1 where it: "poll_iteration E k j i st = (it, st1)" by fastforce
  have e1: "extends st0 st1"
    using poll_iteration_extends[OF Suc.prems(1), of E k j i] by (simp add: it)
  show ?case
  proof (cases it)
    case (Leave r)
    with Suc.prems(2) lt it have "poll_iteration E k j i st = (Leave (Inr (Break url)), st')"
      by (subst (asm) poll_loop.simps) simp
    from poll_iteration_Break[OF Suc.prems(1) this] show ?thesis .
  next
    case (Continue s)
    with Suc.prems(2) lt it have "poll_loop E k j (Suc i) s st1 = (Inr (Break url), st')"
      by (subst (asm) poll_loop.simps) simp
    from Suc.hyps(1)[OF x e1 this] show ?thesis .
  qed
qed


lemma make_api_request_object:
  assumes "net E (calls st) = Response r" "status_code r \<noteq> 401"
    "\<not> (500 \<le> status_code r \<and> status_code r < 600)" "json_body r = Some (PDict d)"
  shows "\<exists>st1. make_api_request E k m ep f dt p a ma st = (Inr (PDict d, Some (status_code r)), st1)
          \<and> calls st1 = Suc (calls st) \<and> written st1 = written st
          \<and> requests_of (trace st1) = requests_of (trace st) @ [api_request k m ep f dt p]
          \<and> sleeps_of (trace st1) = sleeps_of (trace st)"
proof -
  let ?s = "snd (http_call E (api_request k m ep f dt p) (log_request m (Lit BASE_URL # ep) f dt p a ma st))"
  have "make_api_request E k m ep f dt p a ma st = handle_response r ?s"
    using assms(1) by (rule make_api_request_Response)
  moreover have "fst (handle_response r ?s) = Inr (PDict d, Some (status_code r))"
    using assms(2-4) by (rule handle_response_object)
  ultimately have "make_api_request E k m ep f dt p a ma st
       = (Inr (PDict d, Some (status_code r)), snd (handle_response r ?s))"
    by (metis prod.collapse)
  then show ?thesis by simp
qed

lemma poll_iteration_object:
  assumes "net E (calls st) = Response r" "status_code r \<noteq> 401"
    "\<not> (500 \<le> status_code r \<and> status_code r < 600)" "json_body r = Some (PDict d)" "d \<noteq> []"
  shows "\<exists>st1. poll_iteration E k j i st = (classify d, st1)
          \<and> calls st1 = Suc (calls st) \<and> written st1 = written st
          \<and> requests_of (trace st1) = requests_of (trace st) @ [status_request k j]
          \<and> sleeps_of (trace st1) = sleeps_of (trace st) @
               (if classify d = Continue (dict_get d ''status'') \<and> i < max_polls - 1
                then [poll_interval_seconds] else [])"
proof -
  from make_api_request_object[OF assms(1-4), of k "''GET''" "status_endpoint j" "[]" "[]" "[]" 1 3]
  have "calls (log INFO (msg_polling_attempt i) st) = calls st" by simp
  with make_api_request_object[of E "log INFO (msg_polling_attempt i) st" r d k "''GET''" "status_endpoint j" "[]" "[]" "[]" 1 3] assms
  obtain st1 where mk: "make_api_request E k ''GET'' (status_endpoint j) [] [] [] 1 3
        (log INFO (msg_polling_attempt i) st) = (Inr (PDict d, Some (status_code r)), st1)"
    and st1: "calls st1 = Suc (calls st)" "written st1 = written st"
       "requests_of (trace st1) = requests_of (trace st) @ [status_request k j]"
       "sleeps_of (trace st1) = sleeps_of (trace st)"
    by (auto simp: status_request_def)
  show ?thesis
    using st1 assms(5)
    by (auto simp add: poll_iteration_def mk Let_def classify_def dict_get_def)
qed

lemma poll_loop_Leave:
  "i < max_polls \<Longrightarrow> poll_iteration E k j i st = (Leave r, st1) \<Longrightarrow>
   poll_loop E k j i c st = (r, st1)"
  by (subst poll_loop.simps) simp

lemma poll_loop_Continue:
  "i < max_polls \<Longrightarrow> poll_iteration E k j i st = (Continue s, st1) \<Longrightarrow>
   poll_loop E k j i c st = poll_loop E k j (Suc i) s st1"
  by (subst poll_loop.simps) simp

lemma poll_loop_exhausted:
  "\<not> i < max_polls \<Longrightarrow>
   poll_loop E k j i c st = (Inr (Return False), log WARNING (msg_polling_finished c) st)"
  by (subst poll_loop.simps) simp

lemma in_progressE:
  assumes "in_progress out"
  obtains r d where "out = Response r" "status_code r \<noteq> 401"
    "\<not> (500 \<le> status_code r \<and> status_code r < 600)" "json_body r = Some (PDict d)" "d \<noteq> []"
    "classify d = Continue (dict_get d ''status'')" "observed_status out = dict_get d ''status''"
  using assms
  by (auto simp: in_progress_def observed_status_def classify_def
           split: http_outcome.splits option.splits pyval.splits)

lemma poll_loop_in_progress:
  assumes "\<forall>n. calls st \<le> n \<and> n < calls st + (max_polls - i) \<longrightarrow> in_progress (net E n)"
    and "i \<le> max_polls"
  shows "\<exists>st'. poll_loop E k j i c st = (Inr (Return False), st')
       \<and> calls st' = calls st + (max_polls - i) \<and> written st' = written st
       \<and> requests_of (trace st') = requests_of (trace st) @ replicate (max_polls - i) (status_request k j)
       \<and> sleeps_of (trace st') = sleeps_of (trace st) @ replicate (max_polls - 1 - i) poll_interval_seconds
       \<and> last (trace st') = Log WARNING (msg_polling_finished
            (if i = max_polls then c else observed_status (net E (calls st + (max_polls - i) - 1))))"
  using assms
proof (induction "max_polls - i" arbitrary: i c st)
  case 0
  then have "\<not> i < max_polls" "i = max_polls" by simp_all
  then show ?case
    by (simp add: poll_loop_exhausted)
next
  case (Suc x)
  from Suc.hyps(2) have lt: "i < max_polls" and x: "x = max_polls - Suc i" by simp_all
  from Suc.prems(1) lt have "in_progress (net E (calls st))" by simp
  then obtain r d where r: "net E (calls st) = Response r" "status_code r \<noteq> 401"
    "\<not> (500 \<le> status_code r \<and> status_code r < 600)" "json_body r = Some (PDict d)" "d \<noteq> []"
    and cl: "classify d = Continue (dict_get d ''status'')"
    and ob: "observed_status (net E (calls st)) = dict_get d ''status''"
    by (rule in_progressE)
  from poll_iteration_object[OF r, of k j i] cl
  obtain st1 where it: "poll_iteration E k j i st = (Continue (dict_get d ''status''), st1)"
    and st1: "calls st1 = Suc (calls st)" "written st1 = written st"
      "requests_of (trace st1) = requests_of (trace st) @ [status_request k j]"
      "sleeps_of (trace st1) = sleeps_of (trace st) @ (if i < max_polls - 1 then [poll_interval_seconds] else [])"
    by auto
  have step: "poll_loop E k j i c st = poll_loop E k j (Suc i) (dict_get d ''status'') st1"
    using lt it by (rule poll_loop_Continue)
  have pre: "\<forall>n. calls st1 \<le> n \<and> n < calls st1 + (max_polls - Suc i) \<longrightarrow> in_progress (net E n)"
    using Suc.prems(1) st1(1) lt by auto
  from Suc.hyps(1)[OF x pre, of "dict_get d ''status''"] lt
  obtain st' where res: "poll_loop E k j (Suc i) (dict_get d ''status'') st1 = (Inr (Return False), st')"
    and st': "calls st' = calls st1 + (max_polls - Suc i)" "written st' = written st1"
      "requests_of (trace st') = requests_of (trace st1) @ replicate (max_polls - Suc i) (status_request k j)"
      "sleeps_of (trace st') = sleeps_of (trace st1) @ replicate (max_polls - 1 - Suc i) poll_interval_seconds"
      "last (trace st') = Log WARNING (msg_polling_finished
            (if Suc i = max_polls then dict_get d ''status''
             else observed_status (net E (calls st1 + (max_polls - Suc i) - 1))))"
    by auto
  have n1: "max_polls - i = Suc (max_polls - Suc i)" using lt by simp
  have "calls st' = calls st + (max_polls - i)" using st'(1) st1(1) lt by simp
  moreover have "written st' = written st" using st'(2) st1(2) by simp
  moreover have "requests_of (trace st') = requests_of (trace st) @ replicate (max_polls - i) (status_request k j)"
    using st'(3) st1(3) by (simp add: n1)
  moreover have "sleeps_of (trace st') = sleeps_of (trace st) @ replicate (max_polls - 1 - i) poll_interval_seconds"
  proof (cases "i < max_polls - 1")
    case True
    then have "max_polls - 1 - i = Suc (max_polls - 1 - Suc i)" by simp
    then show ?thesis using st'(4) st1(4) True by simp
  next
    case False
    then show ?thesis using st'(4) st1(4) lt by simp
  qed
  moreover have "last (trace st') = Log WARNING (msg_polling_finished
            (if i = max_polls then c else observed_status (net E (calls st + (max_polls - i) - 1))))"
  proof (cases "Suc i = max_polls")
    case True
    then show ?thesis using st'(5) ob lt by simp
  next
    case False
    then have "calls st1 + (max_polls - Suc i) - 1 = calls st + (max_polls - i) - 1"
      using st1(1) lt by simp
    then show ?thesis using st'(5) False lt by simp
  qed
  ultimately show ?case using step res by simp
qed

lemma submission_accepted_dict:
  "submission_accepted init code = Inr (Some job) \<Longrightarrow>
   \<exists>d. init = PDict d \<and> job = dict_get d ''job_id'' \<and> truthy job \<and> truthy (dict_get d ''status'')
       \<and> (code = Some 200 \<or> code = Some 202)"
  by (cases init) (auto simp: submission_accepted_def dict_get_def split: if_splits)



lemma translate_pdf_accepted:
  assumes "path_exists E pdf" and "\<not> os_error E pdf"
    and "submit_job E key pdf lang tier st = (Inr (init, code), st1)"
    and "submission_accepted init code = Inr (Some job)"
  shows "\<exists>d. init = PDict d \<and>
           translate_pdf E key pdf lang tier out st =
             poll_and_download E key job out 0 PNone (polling_state job (dict_get d ''status'') st1)"
proof -
  from submission_accepted_dict[OF assms(4)] obtain d where d: "init = PDict d" by auto
  then show ?thesis
    using assms by (simp add: translate_pdf_def dict_get_def)
qed


lemma download_file_ok:
  assumes "truthy url" and "net E (calls st) = Response r"
    and "\<not> (400 \<le> status_code r \<and> status_code r < 600)" and "\<not> os_error E out"
  shows "\<exists>st'. download_file E url out st = (Inr True, st')
           \<and> calls st' = Suc (calls st) \<and> written st' = (written st)(out \<mapsto> content r)
           \<and> requests_of (trace st') = requests_of (trace st) @ [download_request url]
           \<and> sleeps_of (trace st') = sleeps_of (trace st)"
  using assms by (auto simp add: download_file_def http_call_def)



lemma translate_pdf_env_download:
  "\<exists>s st3. translate_pdf (env_download d) key pdf lang tier out initial_state
           = download_file (env_download d) (PStr ''https://cdn/x.pdf'') out st3
        \<and> translate_pdf (env_download d) key pdf lang tier out initial_state
           = poll_and_download (env_download d) key (PStr ''abc'') out 0 PNone s
        \<and> poll_loop (env_download d) key (PStr ''abc'') 0 PNone s
           = (Inr (Break (PStr ''https://cdn/x.pdf'')), st3)
        \<and> calls st3 = 2 \<and> written st3 = (\<lambda>p. None)
        \<and> requests_of (trace st3)
            = [submit_request key pdf lang tier, status_request key (PStr ''abc'')]"
proof -
  let ?E = "env_download d"
  let ?job = "PStr ''abc''"
  let ?url = "PStr ''https://cdn/x.pdf''"
  have n0: "net ?E (calls (submit_state pdf lang tier initial_state))
          = Response (resp 202 (Some accepted_body) [])"
    by (simp add: env_download_def submit_state_def start_logs_def initial_state_def)
  from make_api_request_object[OF n0, of "[(''job_id'', PStr ''abc''), (''status'', PStr ''queued'')]"
        key "''POST''" "translate_endpoint tier" "upload_of pdf" "[(''target_lang'', lang)]" "[]" 1 3]
  obtain st1 where sub: "submit_job ?E key pdf lang tier initial_state
        = (Inr (accepted_body, Some 202), st1)"
    and st1: "calls st1 = 1" "written st1 = (\<lambda>p. None)"
      "requests_of (trace st1) = [submit_request key pdf lang tier]"
    by (auto simp: submit_job_def resp_def accepted_body_def submit_state_def start_logs_def
          initial_state_def submit_request_def)
  have acc: "submission_accepted accepted_body (Some 202) = Inr (Some ?job)"
    by (simp add: submission_accepted_def accepted_body_def)
  have ex: "path_exists ?E pdf" "\<not> os_error ?E pdf"
    by (simp_all add: env_download_def)
  let ?s = "polling_state ?job (PStr ''queued'') st1"
  from translate_pdf_accepted[OF ex sub acc, of out]
  have tr: "translate_pdf ?E key pdf lang tier out initial_state
              = poll_and_download ?E key ?job out 0 PNone ?s"
    by (simp add: accepted_body_def dict_get_def)
  have n1: "net ?E (calls ?s) = Response (resp 200 (Some completed_body) [])"
    by (simp add: env_download_def polling_state_def st1)
  from poll_iteration_object[OF n1, of
        "[(''status'', PStr ''completed''), (''download_url'', PStr ''https://cdn/x.pdf'')]" key ?job 0]
  obtain st3 where it1: "poll_iteration ?E key ?job 0 ?s = (Leave (Inr (Break ?url)), st3)"
    and st3: "calls st3 = 2" "written st3 = (\<lambda>p. None)"
      "requests_of (trace st3) = [submit_request key pdf lang tier, status_request key ?job]"
    by (auto simp: resp_def completed_body_def classify_def dict_get_def polling_state_def st1)
  have pl: "poll_loop ?E key ?job 0 PNone ?s = (Inr (Break ?url), st3)"
    using poll_loop_Leave[of 0 ?E key ?job ?s "Inr (Break ?url)" st3 PNone] it1
    by (simp add: max_polls_def)
  have "translate_pdf ?E key pdf lang tier out initial_state = download_file ?E ?url out st3"
    using tr pl by (simp add: poll_and_download_def)
  with tr pl st3 show ?thesis by blast
qed

lemma make_api_request_after_call:
  "extends (snd (http_call E (api_request k m ep f d p) (log_request m (Lit BASE_URL # ep) f d p a ma st)))
           (snd (make_api_request E k m ep f d p a ma st))"
proof -
  obtain out h where hc: "http_call E (api_request k m ep f d p)
                            (log_request m (Lit BASE_URL # ep) f d p a ma st) = (out, h)"
    by fastforce
  have r: "\<And>s a'. extends h s \<Longrightarrow> extends h (snd (make_api_request E k m ep f d p a' ma s))"
    by (rule make_api_request_extends)
  have "extends h (snd (make_api_request E k m ep f d p a ma st))"
    by (subst make_api_request.simps, cases out) (simp_all add: hc Let_def r)
  then show ?thesis by (simp add: hc)
qed

lemma make_api_request_first_request:
  "\<exists>evs. requests_of (trace (snd (make_api_request E k m ep f d p a ma st)))
           = requests_of (trace st) @ api_request k m ep f d p # evs"
proof -
  from make_api_request_after_call[of E k m ep f d p a ma st]
  obtain evs where "trace (snd (make_api_request E k m ep f d p a ma st))
      = trace (snd (http_call E (api_request k m ep f d p)
                      (log_request m (Lit BASE_URL # ep) f d p a ma st))) @ evs"
    by (auto simp: extends_def)
  then show ?thesis by simp
qed

lemma poll_iteration_first_request:
  "\<exists>evs. requests_of (trace (snd (poll_iteration E k j i st)))
           = requests_of (trace st) @ status_request k j # evs"
proof -
  let ?p = "log INFO (msg_polling_attempt i) st"
  obtain r st1 where mk: "make_api_request E k ''GET'' (status_endpoint j) [] [] [] 1 3 ?p = (r, st1)"
    by fastforce
  from make_api_request_first_request[of E k "''GET''" "status_endpoint j" "[]" "[]" "[]" 1 3 ?p]
  obtain evs where e: "requests_of (trace st1) = requests_of (trace st) @ status_request k j # evs"
    by (auto simp: mk status_request_def)
  have "extends st1 (snd (poll_iteration E k j i st))"
    by (simp add: poll_iteration_def mk Let_def split: sum.splits prod.splits)
  then obtain evs' where "trace (snd (poll_iteration E k j i st)) = trace st1 @ evs'"
    by (auto simp: extends_def)
  with e show ?thesis by simp
qed

lemma download_file_trace:
  "\<exists>evs. trace (snd (download_file E url out st)) = trace st @ evs"
  by (cases "net E (calls st)") (simp_all add: download_file_def http_call_def)

lemma poll_and_download_first_request:
  assumes "i < max_polls"
  shows "\<exists>evs. requests_of (trace (snd (poll_and_download E k j out i c st)))
           = requests_of (trace st) @ status_request k j # evs"
proof -
  obtain it st1 where it: "poll_iteration E k j i st = (it, st1)" by fastforce
  from poll_iteration_first_request[of E k j i st] it
  obtain evs where e: "requests_of (trace st1) = requests_of (trace st) @ status_request k j # evs"
    by auto
  obtain x st2 where pl: "poll_loop E k j i c st = (x, st2)" by fastforce
  have "extends st1 st2"
  proof (cases it)
    case (Leave r)
    then show ?thesis using poll_loop_Leave[OF assms, of E k j st r st1 c] it pl by simp
  next
    case (Continue s)
    then have "poll_loop E k j i c st = poll_loop E k j (Suc i) s st1"
      using poll_loop_Continue[OF assms, of E k j st s st1 c] it by simp
    with poll_loop_extends[OF extends_refl, of st1 E k j "Suc i" s] pl show ?thesis by simp
  qed
  then obtain evs2 where e2: "trace st2 = trace st1 @ evs2" by (auto simp: extends_def)
  have "\<exists>evs3. trace (snd (poll_and_download E k j out i c st)) = trace st2 @ evs3"
  proof (cases x)
    case (Inl e)
    then show ?thesis by (simp add: poll_and_download_def pl)
  next
    case (Inr le)
    show ?thesis
    proof (cases le)
      case (Return b)
      with Inr show ?thesis by (simp add: poll_and_download_def pl)
    next
      case (Break url)
      with Inr download_file_trace[of E url out st2] show ?thesis
        by (simp add: poll_and_download_def pl)
    qed
  qed
  then obtain evs3 where e3: "trace (snd (poll_and_download E k j out i c st)) = trace st2 @ evs3"
    by blast
  show ?thesis using e e2 e3 by simp
qed

lemma submit_job_object:
  assumes "net E 0 = Response (resp c (Some (PDict d)) [])" and "c \<noteq> 401"
    and "\<not> (500 \<le> c \<and> c < 600)"
  shows "\<exists>st1. submit_job E key pdf lang tier initial_state = (Inr (PDict d, Some c), st1)
           \<and> calls st1 = 1 \<and> written st1 = (\<lambda>p. None)
           \<and> requests_of (trace st1) = [submit_request key pdf lang tier]"
proof -
  have n0: "net E (calls (submit_state pdf lang tier initial_state))
          = Response (resp c (Some (PDict d)) [])"
    using assms(1) by (simp add: submit_state_def start_logs_def initial_state_def)
  from make_api_request_object[OF n0, of d key "''POST''" "translate_endpoint tier" "upload_of pdf"
         "[(''target_lang'', lang)]" "[]" 1 3] assms(2,3)
  show ?thesis
    by (auto simp: submit_job_def resp_def submit_state_def start_logs_def
          initial_state_def submit_request_def)
qed

text \<open>
  What the helper does with 4xx responses whose body is absent, falsy or an object: the
  classification of the status codes, with one request and no retry.
\<close>

lemma make_api_request_unauthorized:
  assumes "net E (calls st) = Response r" and "status_code r = 401"
  shows "\<exists>st'. make_api_request E k m ep f dt p a ma st = (Inr (PNone, Some 401), st')
           \<and> calls st' = Suc (calls st)
           \<and> requests_of (trace st') = requests_of (trace st) @ [api_request k m ep f dt p]
           \<and> sleeps_of (trace st') = sleeps_of (trace st)"
proof -
  let ?s = "snd (http_call E (api_request k m ep f dt p) (log_request m (Lit BASE_URL # ep) f dt p a ma st))"
  have "make_api_request E k m ep f dt p a ma st = handle_response r ?s"
    using assms(1) by (rule make_api_request_Response)
  moreover have "fst (handle_response r ?s) = Inr (PNone, Some 401)"
    using assms(2) by (simp add: handle_response_def Let_def)
  ultimately have "make_api_request E k m ep f dt p a ma st
       = (Inr (PNone, Some 401), snd (handle_response r ?s))"
    by (metis prod.collapse)
  then show ?thesis by simp
qed

lemma make_api_request_client_error:
  assumes "net E (calls st) = Response r" and "400 \<le> status_code r" and "status_code r < 500"
    and "status_code r \<noteq> 401"
    and "json_body r = None \<or> (\<exists>j. json_body r = Some j \<and> (\<not> truthy j \<or> (\<exists>d. j = PDict d)))"
  shows "\<exists>st'. make_api_request E k m ep f dt p a ma st
             = (Inr (case json_body r of None \<Rightarrow> PNone | Some j \<Rightarrow> j, Some (status_code r)), st')
           \<and> calls st' = Suc (calls st)
           \<and> requests_of (trace st') = requests_of (trace st) @ [api_request k m ep f dt p]
           \<and> sleeps_of (trace st') = sleeps_of (trace st)"
proof -
  let ?s = "snd (http_call E (api_request k m ep f dt p) (log_request m (Lit BASE_URL # ep) f dt p a ma st))"
  have "make_api_request E k m ep f dt p a ma st = handle_response r ?s"
    using assms(1) by (rule make_api_request_Response)
  moreover have "fst (handle_response r ?s)
       = Inr (case json_body r of None \<Rightarrow> PNone | Some j \<Rightarrow> j, Some (status_code r))"
    using assms(2-5) by (auto simp add: handle_response_def Let_def error_message_arg_def)
  ultimately have "make_api_request E k m ep f dt p a ma st
       = (Inr (case json_body r of None \<Rightarrow> PNone | Some j \<Rightarrow> j, Some (status_code r)),
          snd (handle_response r ?s))"
    by (metis prod.collapse)
  then show ?thesis by simp
qed

text \<open>
  The loop of the batch driver, had the import bound the name it reads: every language
  ends with its closing log line, whatever \<open>translate_pdf\<close> returned or raised, and a
  run over a non-empty list ends with the closing line of the batch.
\<close>

lemma test_language_finishes:
  "last (trace (test_language E supported api_key input_pdf tier output_dir_base lang_code st))
     = Log INFO [Lit ''--- Finished Testing Language: '', Val (lang_val lang_code), Lit '' ---'']"
  by (simp add: test_language_def Let_def)

lemma run_batch_completes:
  assumes "truthy api_key" and "path_exists E input_pdf" and "path_exists E languages_csv_path"
    and "read_csv languages_csv_path = Some (Some fieldnames, languages)"
    and "''language_code'' \<in> set fieldnames" and "languages \<noteq> []"
  shows "last (trace (run_batch_translation_test E read_csv supported api_key input_pdf tier
                        output_dir_base languages_csv_path st))
     = Log INFO [Lit (CHR 0x5C # ''n--- Batch Language Translation Test Finished ---'')]"
  using assms by (simp add: run_batch_translation_test_def Let_def)

text \<open>
  Without timeouts: 60 non-terminal answers in a row give exactly 60 HTTP status
  requests.
\<close>

lemma polling_without_timeouts_sends_60:
  assumes "path_exists E pdf" and "\<not> os_error E pdf"
    and "submit_job E key pdf lang tier st = (Inr (init, code), st1)"
    and "submission_accepted init code = Inr (Some job)"
    and "\<forall>n. calls st1 \<le> n \<and> n < calls st1 + 60 \<longrightarrow> in_progress (net E n)"
  shows "\<exists>st'. translate_pdf E key pdf lang tier out st = (Inr False, st')
       \<and> calls st' = calls st1 + 60
       \<and> requests_of (trace st') = requests_of (trace st1) @ replicate 60 (status_request key job)
       \<and> sleeps_of (trace st') = sleeps_of (trace st1) @ replicate 59 5
       \<and> last (trace st') = Log WARNING (msg_polling_finished (observed_status (net E (calls st1 + 59))))
       \<and> written st' = written st1"
proof -
  from submission_accepted_dict[OF assms(4)] obtain d where d: "init = PDict d" by auto
  let ?s = "polling_state job (dict_get d ''status'') st1"
  have tr: "translate_pdf E key pdf lang tier out st = poll_and_download E key job out 0 PNone ?s"
    using assms(1-4) d by (simp add: translate_pdf_def dict_get_def)
  have "\<forall>n. calls ?s \<le> n \<and> n < calls ?s + (max_polls - 0) \<longrightarrow> in_progress (net E n)"
    using assms(5) by (simp add: polling_state_def max_polls_def)
  from poll_loop_in_progress[OF this, of key job PNone]
  obtain st' where "poll_loop E key job 0 PNone ?s = (Inr (Return False), st')"
     "calls st' = calls ?s + (max_polls - 0)" "written st' = written ?s"
     "requests_of (trace st') = requests_of (trace ?s) @ replicate (max_polls - 0) (status_request key job)"
     "sleeps_of (trace st') = sleeps_of (trace ?s) @ replicate (max_polls - 1 - 0) poll_interval_seconds"
     "last (trace st') = Log WARNING (msg_polling_finished
            (if 0 = max_polls then PNone else observed_status (net E (calls ?s + (max_polls - 0) - 1))))"
    by auto
  then show ?thesis
    using tr by (simp add: poll_and_download_def polling_state_def max_polls_def poll_interval_seconds_def add.commute)
qed

lemma polling_attempts_append [simp]:
  "polling_attempts (xs @ ys) = polling_attempts xs @ polling_attempts ys"
  by (induction xs) (simp_all split: option.splits)

lemma attempt_index_attempt [simp]:
  "attempt_index (Log INFO (msg_polling_attempt i)) = Some i"
  by (simp add: attempt_index_def msg_polling_attempt_def)

lemma attempt_index_other [simp]:
  "length m \<noteq> 5 \<Longrightarrow> attempt_index (Log l m) = None"
  "attempt_index (Http rq) = None"
  "attempt_index (Sleep n) = None"
  "attempt_index (WriteFile p b) = None"
  by (simp_all add: attempt_index_def)

lemma polling_attempts_log [simp]:
  "length m \<noteq> 5 \<Longrightarrow> polling_attempts (trace (log l m st)) = polling_attempts (trace st)"
  by simp

lemma polling_attempts_log_request [simp]:
  "polling_attempts (trace (log_request m u f d p a ma st)) = polling_attempts (trace st)"
  by (simp add: log_request_def Let_def)

lemma polling_attempts_http_call [simp]:
  "polling_attempts (trace (snd (http_call E rq st))) = polling_attempts (trace st)"
  by simp

lemma polling_attempts_handle_response [simp]:
  "polling_attempts (trace (snd (handle_response r st))) = polling_attempts (trace st)"
  by (simp add: handle_response_def Let_def split: option.splits sum.splits)






















section \<open>The claims\<close>

text \<open>
  C2. Running the batch script always ends in the import error of line 7, before the
  driver has checked the API key, the input PDF or the CSV and before any network call:
  the state is returned as it was, with no event added.
\<close>

theorem batch_script_import_error:
  "batch_translate_test_script E read_csv supported api_key input_pdf tier output_dir_base
     languages_csv_path st = (Inl ImportError, st)"
  by (simp add: batch_translate_test_script_def app_module_names_def)

text \<open>
  C4. When the call of attempt \<open>N\<close> times out and \<open>N\<close> is below the maximum of 3, the
  helper sleeps \<open>5 * N\<close> seconds and then is the same call with attempt \<open>N + 1\<close>, one
  HTTP request later; when attempt 3 times out the helper returns \<open>(None, None)\<close> without
  sleeping.
\<close>

theorem make_api_request_timeout_retry:
  "net E (calls st) = Timeout \<longrightarrow>
     (0 \<le> attempt \<and> attempt < 3 \<longrightarrow>
        (\<exists>st'. make_api_request E k m ep f d p attempt 3 st
                 = make_api_request E k m ep f d p (attempt + 1) 3 st'
             \<and> calls st' = Suc (calls st)
             \<and> requests_of (trace st') = requests_of (trace st) @ [api_request k m ep f d p]
             \<and> sleeps_of (trace st') = sleeps_of (trace st) @ [5 * attempt]
             \<and> last (trace st') = Sleep (5 * attempt)
             \<and> written st' = written st))
   \<and> (attempt = 3 \<longrightarrow>
        (\<exists>st'. make_api_request E k m ep f d p attempt 3 st = (Inr (PNone, None), st')
             \<and> calls st' = Suc (calls st)
             \<and> requests_of (trace st') = requests_of (trace st) @ [api_request k m ep f d p]
             \<and> sleeps_of (trace st') = sleeps_of (trace st)))"
proof (intro impI conjI)
  assume "net E (calls st) = Timeout" and "0 \<le> attempt \<and> attempt < 3"
  then show "\<exists>st'. make_api_request E k m ep f d p attempt 3 st
                 = make_api_request E k m ep f d p (attempt + 1) 3 st'
             \<and> calls st' = Suc (calls st)
             \<and> requests_of (trace st') = requests_of (trace st) @ [api_request k m ep f d p]
             \<and> sleeps_of (trace st') = sleeps_of (trace st) @ [5 * attempt]
             \<and> last (trace st') = Sleep (5 * attempt)
             \<and> written st' = written st"
    apply (subst make_api_request.simps)
    apply (simp add: http_call_def Let_def split: prod.splits)
    apply (rule exI, rule conjI, rule refl)
    apply simp
    done
next
  assume "net E (calls st) = Timeout" and "attempt = 3"
  then show "\<exists>st'. make_api_request E k m ep f d p attempt 3 st = (Inr (PNone, None), st')
             \<and> calls st' = Suc (calls st)
             \<and> requests_of (trace st') = requests_of (trace st) @ [api_request k m ep f d p]
             \<and> sleeps_of (trace st') = sleeps_of (trace st)"
    apply (subst make_api_request.simps)
    apply (simp add: http_call_def Let_def split: prod.splits)
    done
qed

theorem make_api_request_timeout_retry_witness:
  "\<exists>st'. make_api_request env_timeouts (PStr ''key'') ''GET'' (status_endpoint (PStr ''abc'')) [] [] []
            1 3 initial_state = (Inr (PNone, None), st')
        \<and> calls st' = 3
        \<and> sleeps_of (trace st') = [5, 10]
        \<and> requests_of (trace st') = replicate 3 (status_request (PStr ''key'') (PStr ''abc''))"
proof -
  let ?k = "PStr ''key''" and ?ep = "status_endpoint (PStr ''abc'')"
  have t: "net env_timeouts n = Timeout" for n by (simp add: env_timeouts_def)
  note th = make_api_request_timeout_retry[where E = env_timeouts and k = ?k and m = "''GET''"
              and ep = ?ep and f = "[]" and d = "[]" and p = "[]"]
  from th[where st = initial_state and attempt = 1] t
  obtain s1 where s1: "make_api_request env_timeouts ?k ''GET'' ?ep [] [] [] 1 3 initial_state
                     = make_api_request env_timeouts ?k ''GET'' ?ep [] [] [] 2 3 s1"
     "calls s1 = 1" "sleeps_of (trace s1) = [5]"
     "requests_of (trace s1) = [status_request ?k (PStr ''abc'')]"
    by (auto simp: initial_state_def status_request_def)
  from th[where st = s1 and attempt = 2] t
  obtain s2 where s2: "make_api_request env_timeouts ?k ''GET'' ?ep [] [] [] 2 3 s1
                     = make_api_request env_timeouts ?k ''GET'' ?ep [] [] [] 3 3 s2"
     "calls s2 = 2" "sleeps_of (trace s2) = [5, 10]"
     "requests_of (trace s2) = replicate 2 (status_request ?k (PStr ''abc''))"
    using s1(2-4) by (auto simp: status_request_def numeral_2_eq_2)
  from th[where st = s2 and attempt = 3] t
  obtain s3 where s3: "make_api_request env_timeouts ?k ''GET'' ?ep [] [] [] 3 3 s2
                     = (Inr (PNone, None), s3)"
     "calls s3 = 3" "sleeps_of (trace s3) = [5, 10]"
     "requests_of (trace s3) = replicate 3 (status_request ?k (PStr ''abc''))"
    using s2(2-4) by (auto simp: status_request_def numeral_3_eq_3 numeral_2_eq_2)
  from s1(1) s2(1) s3 show ?thesis by simp
qed








text \<open>
  C10. A poll answered with a 2xx status and the empty JSON object is handled exactly as
  one with no body (JSON null, or a body that is not JSON): one status request, then the
  polling failure is logged and \<open>translate_pdf\<close> returns False, without sleeping and
  without another poll. The guard of line 114 tests falsiness.
\<close>

theorem empty_poll_body_is_failure:
  assumes "i < max_polls" and "net E (calls st) = Response r"
    and "200 \<le> status_code r \<and> status_code r < 300"
    and "json_body r = Some (PDict []) \<or> json_body r = Some PNone \<or> json_body r = None"
  shows "\<exists>st'. poll_and_download E k j out i c st = (Inr False, st')
           \<and> calls st' = Suc (calls st)
           \<and> requests_of (trace st') = requests_of (trace st) @ [status_request k j]
           \<and> sleeps_of (trace st') = sleeps_of (trace st)
           \<and> written st' = written st
           \<and> last (trace st') = Log ERROR msg_polling_failed"
proof -
  let ?pre = "log INFO (msg_polling_attempt i) st"
  let ?s = "snd (http_call E (status_request k j)
                  (log_request ''GET'' (Lit BASE_URL # status_endpoint j) [] [] [] 1 3 ?pre))"
  have mk: "make_api_request E k ''GET'' (status_endpoint j) [] [] [] 1 3 ?pre = handle_response r ?s"
    using assms(2) by (simp add: make_api_request_Response status_request_def)
  obtain body where hr: "fst (handle_response r ?s) = Inr (body, Some (status_code r))"
    and nb: "\<not> truthy body"
    using assms(3,4)
    by (auto simp add: handle_response_def Let_def)
  then have mk': "make_api_request E k ''GET'' (status_endpoint j) [] [] [] 1 3 ?pre
       = (Inr (body, Some (status_code r)), snd (handle_response r ?s))"
    using mk by (metis prod.collapse)
  have it: "poll_iteration E k j i st
       = (Leave (Inr (Return False)), log ERROR msg_polling_failed (snd (handle_response r ?s)))"
    using nb by (simp add: poll_iteration_def mk')
  have "poll_loop E k j i c st
       = (Inr (Return False), log ERROR msg_polling_failed (snd (handle_response r ?s)))"
    using assms(1) it by (rule poll_loop_Leave)
  then show ?thesis
    by (simp add: poll_and_download_def)
qed

theorem empty_poll_body_is_failure_witness:
  "fst (poll_and_download (env_poll (PDict [])) (PStr ''key'') (PStr ''abc'') [''out.pdf''] 0 PNone
          initial_state) = Inr False
   \<and> calls (snd (poll_and_download (env_poll (PDict [])) (PStr ''key'') (PStr ''abc'') [''out.pdf''] 0
          PNone initial_state)) = 1
   \<and> last (trace (snd (poll_and_download (env_poll (PDict [])) (PStr ''key'') (PStr ''abc'')
          [''out.pdf''] 0 PNone initial_state))) = Log ERROR msg_polling_failed"
  using empty_poll_body_is_failure [where E = "env_poll (PDict [])" and st = initial_state
          and i = 0 and r = "resp 200 (Some (PDict [])) []" and k = "PStr ''key''"
          and j = "PStr ''abc''" and out = "[''out.pdf'']" and c = PNone]
  by (auto simp add: env_poll_def resp_def initial_state_def max_polls_def)

text \<open>
  C8 as the code has it. Once the loop has been left with a download URL, a timeout, a
  connection error, any other transport error, or a response with a status from 400 to
  599 makes \<open>translate_pdf\<close> return False: one download request is sent, one error is
  logged, and no file is written.
\<close>

theorem download_failures_return_false:
  assumes "poll_loop E k j i c st0 = (Inr (Break url), st)"
    and "net E (calls st) = Timeout \<or> net E (calls st) = ConnectionError
         \<or> net E (calls st) = RequestException
         \<or> (\<exists>r. net E (calls st) = Response r \<and> 400 \<le> status_code r \<and> status_code r < 600)"
  shows "\<exists>st' m. poll_and_download E k j out i c st0 = (Inr False, st')
           \<and> trace st' = trace st @ [Log INFO (msg_step3 url), Http (download_request url), Log ERROR m]
           \<and> written st' = written st
           \<and> calls st' = Suc (calls st)"
proof -
  from poll_loop_Break[OF extends_refl assms(1)] have url: "truthy url" by simp
  have pd: "poll_and_download E k j out i c st0 = download_file E url out st"
    by (simp add: poll_and_download_def assms(1))
  from assms(2) url show ?thesis
    unfolding pd
    by (auto simp add: download_file_def http_call_def)
qed

theorem download_failures_return_false_witness:
  "fst (translate_pdf (env_download Timeout) (PStr ''key'') [''in.pdf''] (PStr ''es'') ''small''
          [''out.pdf''] initial_state) = Inr False
   \<and> written (snd (translate_pdf (env_download Timeout) (PStr ''key'') [''in.pdf''] (PStr ''es'')
          ''small'' [''out.pdf''] initial_state)) = (\<lambda>p. None)
   \<and> fst (translate_pdf (env_download (Response (resp 404 None []))) (PStr ''key'') [''in.pdf'']
          (PStr ''es'') ''small'' [''out.pdf''] initial_state) = Inr False"
proof -
  let ?k = "PStr ''key''" and ?j = "PStr ''abc''"
  have a: "fst (translate_pdf (env_download d) ?k [''in.pdf''] (PStr ''es'') ''small''
                  [''out.pdf''] initial_state) = Inr False
         \<and> written (snd (translate_pdf (env_download d) ?k [''in.pdf''] (PStr ''es'') ''small''
                  [''out.pdf''] initial_state)) = (\<lambda>p. None)"
    if d: "d = Timeout \<or> d = Response (resp 404 None [])" for d
  proof -
    let ?E = "env_download d"
    from translate_pdf_env_download[of d ?k "[''in.pdf'']" "PStr ''es''" "''small''" "[''out.pdf'']"]
    obtain s st3 where tr: "translate_pdf ?E ?k [''in.pdf''] (PStr ''es'') ''small'' [''out.pdf'']
            initial_state = poll_and_download ?E ?k ?j [''out.pdf''] 0 PNone s"
      and pl: "poll_loop ?E ?k ?j 0 PNone s = (Inr (Break (PStr ''https://cdn/x.pdf'')), st3)"
      and st3: "calls st3 = 2" "written st3 = (\<lambda>p. None)"
      by blast
    have n: "net ?E (calls st3) = Timeout \<or> net ?E (calls st3) = ConnectionError
         \<or> net ?E (calls st3) = RequestException
         \<or> (\<exists>r. net ?E (calls st3) = Response r \<and> 400 \<le> status_code r \<and> status_code r < 600)"
      using d by (auto simp: st3 env_download_def resp_def)
    from download_failures_return_false[OF pl n, of "[''out.pdf'']"] tr st3
    show ?thesis by auto
  qed
  from a[of Timeout] a[of "Response (resp 404 None [])"] show ?thesis by simp
qed

text \<open>
  C8 as stated fails outside 4xx and 5xx: \<open>raise_for_status\<close> lets a 304 through, so
  the body of a non-2xx response is written to the output path and True is returned.
\<close>

theorem download_not_modified_counterexample:
  "fst (translate_pdf (env_download (Response (resp 304 None ''stale''))) (PStr ''key'') [''in.pdf'']
          (PStr ''es'') ''small'' [''out.pdf''] initial_state) = Inr True
   \<and> written (snd (translate_pdf (env_download (Response (resp 304 None ''stale''))) (PStr ''key'')
          [''in.pdf''] (PStr ''es'') ''small'' [''out.pdf''] initial_state)) [''out.pdf'']
       = Some ''stale''
   \<and> net (env_download (Response (resp 304 None ''stale''))) 2 = Response (resp 304 None ''stale'')
   \<and> status_code (resp 304 None ''stale'') = 304"
proof -
  let ?E = "env_download (Response (resp 304 None ''stale''))"
  from translate_pdf_env_download[of "Response (resp 304 None ''stale'')" "PStr ''key''" "[''in.pdf'']"
          "PStr ''es''" "''small''" "[''out.pdf'']"]
  obtain s :: state and st3 where tr: "translate_pdf ?E (PStr ''key'') [''in.pdf''] (PStr ''es'') ''small''
          [''out.pdf''] initial_state = download_file ?E (PStr ''https://cdn/x.pdf'') [''out.pdf''] st3"
    and st3: "calls st3 = 2" "written st3 = (\<lambda>p. None)"
    by blast
  have n: "net ?E (calls st3) = Response (resp 304 None ''stale'')"
    by (simp add: st3 env_download_def)
  from download_file_ok[OF _ n, of "PStr ''https://cdn/x.pdf''" "[''out.pdf'']"]
  obtain st4 where "download_file ?E (PStr ''https://cdn/x.pdf'') [''out.pdf''] st3 = (Inr True, st4)"
     "written st4 = (written st3)([''out.pdf''] \<mapsto> ''stale'')"
    by (auto simp: resp_def env_download_def)
  with tr show ?thesis
    by (simp add: env_download_def resp_def)
qed

text \<open>
  C9 at a failing input. A 403 whose body is the JSON string "Forbidden": building the
  error log of line 51 calls \<open>.get\<close> on a \<open>str\<close>, and the AttributeError leaves the
  helper instead of the pair (body, 403).
\<close>

theorem forbidden_json_string_raises:
  "fst (make_api_request env_forbidden_text (PStr ''key'') ''GET'' (status_endpoint (PStr ''abc''))
          [] [] [] 1 3 initial_state) = Inl AttributeError
   \<and> net env_forbidden_text 0 = Response (resp 403 (Some (PStr ''Forbidden'')) [])"
  by (simp add: make_api_request_Response env_forbidden_text_def initial_state_def
        handle_response_def resp_def error_message_arg_def Let_def)

text \<open>
  C3 at a failing input. With the CSV holding es and fr, the script raises the import
  error of line 7 before any language is attempted: no event is added to the state.
\<close>

theorem batch_es_fr_raises_import_error:
  "batch_translate_test_script env_es_fr csv_es_fr [] (PStr ''key'') [''example.pdf''] ''small''
     [''language_test_outputs''] [''languages.csv''] initial_state
   = (Inl ImportError, initial_state)"
  by (simp add: batch_translate_test_script_def app_module_names_def)

text \<open>
  C5 as the code has it. Let the input file exist and open, and let the helper return
  the pair (body, code) for the submission rather than raise, the body being an object or
  falsy whenever the code is 200 or 202. The submission is
  accepted exactly when the code is 200 or 202 and the body is an object whose job_id and
  status values are both truthy: then \<open>translate_pdf\<close> goes on to the poll loop, whose
  first request is the status request for that job id. In every other case it returns
  False at once, the failure is logged, and no request follows the submission.
\<close>

theorem submission_acceptance:
  assumes "path_exists E pdf" and "\<not> os_error E pdf"
    and "submit_job E key pdf lang tier st = (Inr (body, code), st1)"
    and "(code = Some 200 \<or> code = Some 202) \<longrightarrow> body = PDict d \<or> \<not> truthy body"
  shows "((code = Some 200 \<or> code = Some 202) \<and> body = PDict d
            \<and> truthy (dict_get d ''job_id'') \<and> truthy (dict_get d ''status'') \<longrightarrow>
            translate_pdf E key pdf lang tier out st
              = poll_and_download E key (dict_get d ''job_id'') out 0 PNone
                  (polling_state (dict_get d ''job_id'') (dict_get d ''status'') st1)
          \<and> (\<exists>evs. requests_of (trace (snd (translate_pdf E key pdf lang tier out st)))
                     = requests_of (trace st1) @ status_request key (dict_get d ''job_id'') # evs))
       \<and> (\<not> ((code = Some 200 \<or> code = Some 202) \<and> body = PDict d
              \<and> truthy (dict_get d ''job_id'') \<and> truthy (dict_get d ''status'')) \<longrightarrow>
            (\<exists>st'. translate_pdf E key pdf lang tier out st = (Inr False, st')
                 \<and> calls st' = calls st1
                 \<and> requests_of (trace st') = requests_of (trace st1)
                 \<and> written st' = written st1
                 \<and> last (trace st') = Log ERROR (msg_failed_to_initiate body code)))"
proof (intro conjI impI)
  assume a: "(code = Some 200 \<or> code = Some 202) \<and> body = PDict d
            \<and> truthy (dict_get d ''job_id'') \<and> truthy (dict_get d ''status'')"
  let ?job = "dict_get d ''job_id''"
  let ?s = "polling_state ?job (dict_get d ''status'') st1"
  from a have ne: "d \<noteq> []" by (auto simp: dict_get_def)
  have acc: "submission_accepted body code = Inr (Some ?job)"
    using a ne by (auto simp: submission_accepted_def dict_get_def)
  show tr: "translate_pdf E key pdf lang tier out st = poll_and_download E key ?job out 0 PNone ?s"
    using assms(1-3) acc a by (simp add: translate_pdf_def dict_get_def)
  have "0 < max_polls" by (simp add: max_polls_def)
  from poll_and_download_first_request[OF this, of E key ?job out PNone ?s]
  show "\<exists>evs. requests_of (trace (snd (translate_pdf E key pdf lang tier out st)))
                     = requests_of (trace st1) @ status_request key ?job # evs"
    by (simp add: tr polling_state_def)
next
  assume a: "\<not> ((code = Some 200 \<or> code = Some 202) \<and> body = PDict d
              \<and> truthy (dict_get d ''job_id'') \<and> truthy (dict_get d ''status''))"
  have acc: "submission_accepted body code = Inr None"
    using a assms(4) by (auto simp: submission_accepted_def dict_get_def split: if_splits)
  show "\<exists>st'. translate_pdf E key pdf lang tier out st = (Inr False, st')
                 \<and> calls st' = calls st1
                 \<and> requests_of (trace st') = requests_of (trace st1)
                 \<and> written st' = written st1
                 \<and> last (trace st') = Log ERROR (msg_failed_to_initiate body code)"
    using assms(1-3) acc by (simp add: translate_pdf_def)
qed

theorem submission_acceptance_witness:
  "(\<exists>evs. requests_of (trace (snd (translate_pdf env_in_progress (PStr ''key'') [''in.pdf'']
              (PStr ''es'') ''small'' [''out.pdf''] initial_state)))
           = submit_request (PStr ''key'') [''in.pdf''] (PStr ''es'') ''small''
             # status_request (PStr ''key'') (PStr ''abc'') # evs)
   \<and> fst (translate_pdf env_empty_status (PStr ''key'') [''in.pdf''] (PStr ''es'') ''small''
            [''out.pdf''] initial_state) = Inr False
   \<and> requests_of (trace (snd (translate_pdf env_empty_status (PStr ''key'') [''in.pdf''] (PStr ''es'')
            ''small'' [''out.pdf''] initial_state)))
       = [submit_request (PStr ''key'') [''in.pdf''] (PStr ''es'') ''small'']"
proof -
  let ?k = "PStr ''key''" and ?l = "PStr ''es''"
  let ?d1 = "[(''job_id'', PStr ''abc''), (''status'', PStr ''queued'')]"
  let ?d2 = "[(''job_id'', PStr ''abc''), (''status'', PStr [])]"
  obtain s1 where s1: "submit_job env_in_progress ?k [''in.pdf''] ?l ''small'' initial_state
        = (Inr (PDict ?d1, Some 202), s1)"
      "requests_of (trace s1) = [submit_request ?k [''in.pdf''] ?l ''small'']"
    using submit_job_object[of env_in_progress 202 ?d1 ?k "[''in.pdf'']" ?l "''small''"]
    by (auto simp: env_in_progress_def accepted_body_def)
  obtain s2 where s2: "submit_job env_empty_status ?k [''in.pdf''] ?l ''small'' initial_state
        = (Inr (PDict ?d2, Some 202), s2)"
      "requests_of (trace s2) = [submit_request ?k [''in.pdf''] ?l ''small'']"
    using submit_job_object[of env_empty_status 202 ?d2 ?k "[''in.pdf'']" ?l "''small''"]
    by (auto simp: env_empty_status_def empty_status_body_def)
  have e1: "path_exists env_in_progress [''in.pdf'']" "\<not> os_error env_in_progress [''in.pdf'']"
    by (simp_all add: env_in_progress_def)
  have e2: "path_exists env_empty_status [''in.pdf'']" "\<not> os_error env_empty_status [''in.pdf'']"
    by (simp_all add: env_empty_status_def)
  from submission_acceptance[OF e1 s1(1), of ?d1 "[''out.pdf'']"] s1(2)
  have a: "\<exists>evs. requests_of (trace (snd (translate_pdf env_in_progress ?k [''in.pdf'']
              ?l ''small'' [''out.pdf''] initial_state)))
           = submit_request ?k [''in.pdf''] ?l ''small'' # status_request ?k (PStr ''abc'') # evs"
    by (auto simp: dict_get_def)
  from submission_acceptance[OF e2 s2(1), of ?d2 "[''out.pdf'']"] s2(2)
  have b: "fst (translate_pdf env_empty_status ?k [''in.pdf''] ?l ''small''
            [''out.pdf''] initial_state) = Inr False"
    "requests_of (trace (snd (translate_pdf env_empty_status ?k [''in.pdf''] ?l
            ''small'' [''out.pdf''] initial_state)))
       = [submit_request ?k [''in.pdf''] ?l ''small'']"
    by (auto simp: dict_get_def)
  from a b show ?thesis by simp
qed

text \<open>
  C5 as stated fails: a 202 whose body holds a job id and a status field that is the
  empty string contains both fields, yet the submission is rejected, since line 97 tests
  the truthiness of the values and not the presence of the keys.
\<close>

theorem empty_status_submission_rejected:
  "fst (translate_pdf env_empty_status (PStr ''key'') [''in.pdf''] (PStr ''es'') ''small''
          [''out.pdf''] initial_state) = Inr False
   \<and> requests_of (trace (snd (translate_pdf env_empty_status (PStr ''key'') [''in.pdf''] (PStr ''es'')
          ''small'' [''out.pdf''] initial_state)))
       = [submit_request (PStr ''key'') [''in.pdf''] (PStr ''es'') ''small'']
   \<and> net env_empty_status 0
       = Response (resp 202 (Some (PDict [(''job_id'', PStr ''abc''), (''status'', PStr [])])) [])
   \<and> map_of [(''job_id'', PStr ''abc''), (''status'', PStr [])] ''job_id'' = Some (PStr ''abc'')
   \<and> map_of [(''job_id'', PStr ''abc''), (''status'', PStr [])] ''status'' = Some (PStr [])"
proof -
  let ?k = "PStr ''key''" and ?l = "PStr ''es''"
  let ?d2 = "[(''job_id'', PStr ''abc''), (''status'', PStr [])]"
  obtain s2 where s2: "submit_job env_empty_status ?k [''in.pdf''] ?l ''small'' initial_state
        = (Inr (PDict ?d2, Some 202), s2)"
      "requests_of (trace s2) = [submit_request ?k [''in.pdf''] ?l ''small'']"
    using submit_job_object[of env_empty_status 202 ?d2 ?k "[''in.pdf'']" ?l "''small''"]
    by (auto simp: env_empty_status_def empty_status_body_def)
  have "submission_accepted (PDict ?d2) (Some 202) = Inr None"
    by (simp add: submission_accepted_def)
  with s2 show ?thesis
    by (simp add: translate_pdf_def env_empty_status_def empty_status_body_def)
qed

end
